theory Spec2Isabelle
  imports Main
begin

section \<open>Shared types (types/index.ts, config/index.ts, middleware/errorHandler.ts)\<close>

text \<open>
  \<^verbatim>\<open>enum UserRole { USER = 'USER', MERCHANT = 'MERCHANT', ADMIN = 'ADMIN' }\<close>
\<close>

datatype UserRole = USER | MERCHANT | ADMIN

fun role_value :: "UserRole \<Rightarrow> string" where
  "role_value USER = ''USER''"
| "role_value MERCHANT = ''MERCHANT''"
| "role_value ADMIN = ''ADMIN''"

text \<open>
  The payload object of a token as it exists at run time. The interface \<open>JWTPayload\<close>
  declares \<open>userId\<close>, \<open>email\<close>, \<open>role\<close>, \<open>iat?\<close> and \<open>exp?\<close>; a refresh token is signed from
  \<open>Pick<JWTPayload, 'userId'>\<close>, and the signing library adds the registered members
  \<open>iss\<close> and \<open>aud\<close> (a presented token may also carry \<open>nbf\<close>). A member that is
  \<open>undefined\<close> is \<open>None\<close>. Times are seconds since the epoch.
\<close>

record JWTPayload =
  userId :: "string option"
  email :: "string option"
  role :: "UserRole option"
  iat :: "nat option"
  exp :: "nat option"
  nbf :: "nat option"
  iss :: "string option"
  aud :: "string option"

text \<open>
  \<open>class AppError extends Error\<close> carries a message and a status code; any other exception
  is a plain \<open>Error\<close>. \<open>errorHandler\<close> answers an \<open>AppError\<close> with its own status and
  message and everything else with 500 and a fixed message.
\<close>

datatype error = AppError string nat | Error string

fun errorHandler :: "error \<Rightarrow> nat \<times> string" where
  "errorHandler (AppError message statusCode) = (statusCode, message)"
| "errorHandler (Error message) = (500, ''Internal Server Error'')"

definition statusCode :: "error \<Rightarrow> nat" where
  "statusCode e = fst (errorHandler e)"

text \<open>
  \<open>process.env\<close>, restricted to the variables the modelled code reads, and the \<open>config\<close>
  object built from it: \<open>process.env.X || 'fallback'\<close> takes the fallback when the
  variable is unset or the empty string.
\<close>

record process_env =
  env_NODE_ENV :: "string option"
  env_JWT_ACCESS_SECRET :: "string option"
  env_JWT_REFRESH_SECRET :: "string option"
  env_JWT_ACCESS_EXPIRY :: "string option"
  env_JWT_REFRESH_EXPIRY :: "string option"
  env_ALLOW_INSECURE_COOKIES :: "string option"

record Config =
  NODE_ENV :: string
  JWT_ACCESS_SECRET :: string
  JWT_REFRESH_SECRET :: string
  JWT_ACCESS_EXPIRY :: string
  JWT_REFRESH_EXPIRY :: string

fun or_default :: "string option \<Rightarrow> string \<Rightarrow> string" where
  "or_default None d = d"
| "or_default (Some s) d = (if s = [] then d else s)"

definition config :: "process_env \<Rightarrow> Config" where
  "config e =
     \<lparr> NODE_ENV = or_default (env_NODE_ENV e) ''development'',
       JWT_ACCESS_SECRET =
         or_default (env_JWT_ACCESS_SECRET e) ''fallback-secret-change-in-production'',
       JWT_REFRESH_SECRET =
         or_default (env_JWT_REFRESH_SECRET e) ''fallback-refresh-change-in-production'',
       JWT_ACCESS_EXPIRY = or_default (env_JWT_ACCESS_EXPIRY e) ''15m'',
       JWT_REFRESH_EXPIRY = or_default (env_JWT_REFRESH_EXPIRY e) ''7d'' \<rparr>"

section \<open>The signing library (jsonwebtoken), as the token service uses it\<close>

text \<open>
  The package \<open>jsonwebtoken\<close> is a dependency, not part of the repository. Its
  \<open>sign\<close> and \<open>verify\<close> are modelled after their documented behaviour for the options the
  token service passes (\<open>expiresIn\<close>, \<open>issuer\<close>, \<open>audience\<close>; default algorithm HS256):

  \<^item> a token is the compact serialisation of a payload and a signature. The serialisation
    (\<open>jwt_encode\<close>, \<open>jwt_decode\<close>) and the parser of time spans such as \<open>'15m'\<close>
    (\<open>timespan\<close>, in seconds) are parameters of the model;
  \<^item> the keyed hash is symbolic: \<open>HS256 k p\<close> is the tag of payload \<open>p\<close> under key
    \<open>k\<close>, and two tags are equal only if key and payload are (the usual idealisation
    of a message authentication code).
\<close>

datatype signature = HS256 string JWTPayload

record jws =
  payload :: JWTPayload
  signature :: signature

record SignOptions =
  expiresIn :: string
  issuer :: string
  audience :: string

record VerifyOptions =
  v_issuer :: string
  v_audience :: string

datatype jwt_error = TokenExpiredError | JsonWebTokenError | NotBeforeError | OtherError

text \<open>
  A document of the \<open>User\<close> collection (models/User.ts, interface \<open>IUser\<close>).
  \<open>user_id\<close> is \<open>_id.toString()\<close>; \<open>password\<close> is the stored hash, absent for
  OAuth users; dates are seconds since the epoch.
\<close>

record User =
  user_id :: string
  username :: string
  user_email :: string
  password :: "string option"
  user_role :: UserRole
  provider :: string
  isActive :: bool
  createdAt :: nat
  updatedAt :: nat

text \<open>
  The server-side world of one request: the environment, the clock
  (\<open>Math.floor(Date.now() / 1000)\<close>), the \<open>User\<close> collection, and the library
  parameters (\<open>bcrypt_compare candidate hash\<close> is \<open>bcrypt.compare\<close>).
\<close>

record server =
  penv :: process_env
  clock :: nat
  users :: "User list"
  jwt_encode :: "jws \<Rightarrow> string"
  jwt_decode :: "string \<Rightarrow> jws option"
  timespan :: "string \<Rightarrow> nat option"
  bcrypt_compare :: "string \<Rightarrow> string \<Rightarrow> bool"

text \<open>
  \<open>jwt.sign(payload, secret, options)\<close>: refuses an empty secret and a payload that
  already has \<open>exp\<close>, \<open>aud\<close> or \<open>iss\<close>; the timestamp is \<open>payload.iat || now\<close>; the result
  carries \<open>iat\<close>, \<open>exp = timestamp + expiresIn\<close>, \<open>aud\<close> and \<open>iss\<close>.
\<close>

definition sign_timestamp :: "nat \<Rightarrow> JWTPayload \<Rightarrow> nat" where
  "sign_timestamp t p = (case iat p of None \<Rightarrow> t | Some i \<Rightarrow> (if i = 0 then t else i))"

definition signed_payload :: "nat \<Rightarrow> nat \<Rightarrow> SignOptions \<Rightarrow> JWTPayload \<Rightarrow> JWTPayload" where
  "signed_payload t span opts p =
     p\<lparr> iat := Some (sign_timestamp t p),
        exp := Some (sign_timestamp t p + span),
        aud := Some (audience opts),
        iss := Some (issuer opts) \<rparr>"

definition signed_jws :: "nat \<Rightarrow> nat \<Rightarrow> SignOptions \<Rightarrow> string \<Rightarrow> JWTPayload \<Rightarrow> jws" where
  "signed_jws t span opts secret p =
     \<lparr> payload = signed_payload t span opts p,
       signature = HS256 secret (signed_payload t span opts p) \<rparr>"

definition jwt_sign :: "server \<Rightarrow> JWTPayload \<Rightarrow> string \<Rightarrow> SignOptions \<Rightarrow> error + string" where
  "jwt_sign srv p secret opts =
     (if secret = [] then Inl (Error ''secretOrPrivateKey must have a value'')
      else if exp p \<noteq> None then
        Inl (Error ''Bad options.expiresIn option the payload already has an exp property.'')
      else if aud p \<noteq> None then
        Inl (Error ''Bad options.audience option. The payload already has an aud property.'')
      else if iss p \<noteq> None then
        Inl (Error ''Bad options.issuer option. The payload already has an iss property.'')
      else case timespan srv (expiresIn opts) of
        None \<Rightarrow> Inl (Error ''expiresIn should be a number of seconds or string representing a timespan'')
      | Some span \<Rightarrow> Inr (jwt_encode srv (signed_jws (clock srv) span opts secret p)))"

text \<open>
  \<open>jwt.verify(token, secret, options)\<close>: malformed token, missing secret or wrong
  signature give \<open>JsonWebTokenError\<close>; then \<open>nbf\<close> (\<open>NotBeforeError\<close>), \<open>exp\<close>
  (\<open>TokenExpiredError\<close> when \<open>now >= exp\<close>), audience and issuer
  (\<open>JsonWebTokenError\<close>) are checked in this order; the payload is returned.
\<close>

definition jwt_verify ::
  "server \<Rightarrow> string \<Rightarrow> string \<Rightarrow> VerifyOptions \<Rightarrow> jwt_error + JWTPayload" where
  "jwt_verify srv token secret opts =
     (case jwt_decode srv token of
        None \<Rightarrow> Inl JsonWebTokenError
      | Some j \<Rightarrow>
          (if secret = [] then Inl JsonWebTokenError
           else if signature j \<noteq> HS256 secret (payload j) then Inl JsonWebTokenError
           else if (case nbf (payload j) of None \<Rightarrow> False | Some n \<Rightarrow> clock srv < n)
             then Inl NotBeforeError
           else if (case exp (payload j) of None \<Rightarrow> False | Some x \<Rightarrow> x \<le> clock srv)
             then Inl TokenExpiredError
           else if aud (payload j) \<noteq> Some (v_audience opts) then Inl JsonWebTokenError
           else if iss (payload j) \<noteq> Some (v_issuer opts) then Inl JsonWebTokenError
           else Inr (payload j)))"

section \<open>Token service (services/token.service.ts)\<close>

definition access_sign_options :: "process_env \<Rightarrow> SignOptions" where
  "access_sign_options e =
     \<lparr> expiresIn = JWT_ACCESS_EXPIRY (config e),
       issuer = ''secureauth-gateway'',
       audience = ''secureauth-api'' \<rparr>"

definition refresh_sign_options :: "process_env \<Rightarrow> SignOptions" where
  "refresh_sign_options e =
     \<lparr> expiresIn = JWT_REFRESH_EXPIRY (config e),
       issuer = ''secureauth-gateway'',
       audience = ''secureauth-api'' \<rparr>"

definition generateAccessToken :: "server \<Rightarrow> JWTPayload \<Rightarrow> error + string" where
  "generateAccessToken srv p =
     jwt_sign srv p (JWT_ACCESS_SECRET (config (penv srv))) (access_sign_options (penv srv))"

definition generateRefreshToken :: "server \<Rightarrow> JWTPayload \<Rightarrow> error + string" where
  "generateRefreshToken srv p =
     jwt_sign srv p (JWT_REFRESH_SECRET (config (penv srv))) (refresh_sign_options (penv srv))"

fun access_error :: "jwt_error \<Rightarrow> error" where
  "access_error TokenExpiredError = AppError ''Access token has expired'' 401"
| "access_error JsonWebTokenError = AppError ''Invalid access token'' 401"
| "access_error NotBeforeError = AppError ''Access token not yet valid'' 401"
| "access_error OtherError = AppError ''Token verification failed'' 401"

fun refresh_error :: "jwt_error \<Rightarrow> error" where
  "refresh_error TokenExpiredError =
     AppError ''Refresh token has expired. Please log in again.'' 401"
| "refresh_error JsonWebTokenError = AppError ''Invalid refresh token'' 401"
| "refresh_error NotBeforeError = AppError ''Refresh token not yet valid'' 401"
| "refresh_error OtherError = AppError ''Refresh token verification failed'' 401"

definition verifyAccessToken :: "server \<Rightarrow> string \<Rightarrow> error + JWTPayload" where
  "verifyAccessToken srv token =
     (case jwt_verify srv token (JWT_ACCESS_SECRET (config (penv srv)))
             \<lparr> v_issuer = ''secureauth-gateway'', v_audience = ''secureauth-api'' \<rparr> of
        Inr decoded \<Rightarrow> Inr decoded
      | Inl e \<Rightarrow> Inl (access_error e))"

definition verifyRefreshToken :: "server \<Rightarrow> string \<Rightarrow> error + JWTPayload" where
  "verifyRefreshToken srv token =
     (case jwt_verify srv token (JWT_REFRESH_SECRET (config (penv srv)))
             \<lparr> v_issuer = ''secureauth-gateway'', v_audience = ''secureauth-api'' \<rparr> of
        Inr decoded \<Rightarrow> Inr decoded
      | Inl e \<Rightarrow> Inl (refresh_error e))"

section \<open>The User model (models/User.ts) and the queries the controllers issue\<close>

text \<open>
  The collection is a list of documents. \<open>User.findById\<close> and \<open>User.findOne\<close> are
  library queries (mongoose): they return the document with the given identifier,
  respectively the first document matching both filter fields, or \<open>null\<close>.
  \<open>findById(undefined)\<close> finds nothing. \<open>save\<close> writes the document back in place.
  Identifiers are compared as strings. The library's refusal of a string that is not a
  well-formed object identifier is not represented: the identifiers looked up below
  come from verified tokens, which the server signs with \<open>_id.toString()\<close> only.
\<close>

definition findById :: "server \<Rightarrow> string option \<Rightarrow> User option" where
  "findById srv i =
     (case i of None \<Rightarrow> None | Some v \<Rightarrow> find (\<lambda>u. user_id u = v) (users srv))"

definition findOne_email_provider :: "server \<Rightarrow> string \<Rightarrow> string \<Rightarrow> User option" where
  "findOne_email_provider srv e p =
     find (\<lambda>u. user_email u = e \<and> provider u = p) (users srv)"

definition save :: "User list \<Rightarrow> User \<Rightarrow> User list" where
  "save db u = map (\<lambda>d. if user_id d = user_id u then u else d) db"

text \<open>
  A value of the JSON body as JavaScript sees it: \<open>express.json()\<close> delivers whatever
  the client sent, whatever the TypeScript annotations say. \<open>JUndefined\<close> is an absent
  member, \<open>JObject\<close> any object or array. Of a number only whether it is zero matters
  to the code modelled. \<open>js_truthy\<close> is what \<open>!v\<close> negates.
\<close>

datatype jsvalue = JUndefined | JNull | JBool bool | JNumber int | JString string | JObject

fun js_truthy :: "jsvalue \<Rightarrow> bool" where
  "js_truthy JUndefined = False"
| "js_truthy JNull = False"
| "js_truthy (JBool b) = b"
| "js_truthy (JNumber n) = (n \<noteq> 0)"
| "js_truthy (JString s) = (s \<noteq> [])"
| "js_truthy JObject = True"

text \<open>
  \<open>UserSchema.methods.comparePassword\<close>: \<open>false\<close> without a stored hash, otherwise
  \<open>bcrypt.compare(candidatePassword, this.password)\<close>; the method catches whatever
  the comparison throws and answers \<open>false\<close>, which is what happens to a candidate
  that is not a string (the library refuses it as an illegal argument).
\<close>

definition comparePassword :: "server \<Rightarrow> User \<Rightarrow> jsvalue \<Rightarrow> bool" where
  "comparePassword srv u candidatePassword =
     (case password u of
        None \<Rightarrow> False
      | Some h \<Rightarrow>
          (if h = [] then False
           else (case candidatePassword of
                   JString s \<Rightarrow> bcrypt_compare srv s h
                 | _ \<Rightarrow> False)))"

section \<open>Requests and responses\<close>

text \<open>
  The parts of an Express request the modelled code reads. The members of the JSON
  body keep their JSON type.
\<close>

record Request =
  authorization :: "string option"
  cookies_jwt :: "string option"
  params_id :: string
  body_email :: jsvalue
  body_password :: jsvalue
  body_isActive :: jsvalue
  user :: "JWTPayload option"

text \<open>
  The queries a controller issues, in order, where a statement needs them.
\<close>

datatype db_op = FindById string | FindOne string string | Save string

record CookieOptions =
  httpOnly :: bool
  secure :: bool
  sameSite :: string
  maxAge :: nat

text \<open>
  The \<open>data\<close> member of the response envelope, one constructor per shape the
  controllers send.
\<close>

datatype data =
    NoData
  | AuthData string string string UserRole string
  | TokenData string
  | MeData string string string UserRole bool nat
  | StatusData string string string UserRole bool

text \<open>
  What \<open>sendSuccess(res, message, data, statusCode = 200)\<close> leaves in the response,
  with the cookie set by \<open>res.cookie\<close> (name, value, options) if any. The envelope's
  \<open>success: true\<close> and its timestamp are not represented.
\<close>

record Response =
  res_status :: nat
  res_message :: string
  res_data :: data
  res_cookie :: "(string \<times> string \<times> CookieOptions) option"

definition sendSuccess :: "string \<Rightarrow> data \<Rightarrow> nat \<Rightarrow> Response" where
  "sendSuccess message d sc =
     \<lparr> res_status = sc, res_message = message, res_data = d, res_cookie = None \<rparr>"

subsection \<open>String helpers of the JavaScript runtime\<close>

definition startsWith :: "string \<Rightarrow> string \<Rightarrow> bool" where
  "startsWith s p = (take (length p) s = p)"

text \<open>\<open>s.split(c)\<close> for a one-character separator: never the empty array.\<close>

fun split_on :: "char \<Rightarrow> string \<Rightarrow> string list" where
  "split_on c [] = [[]]"
| "split_on c (x # xs) =
     (if x = c then [] # split_on c xs
      else (case split_on c xs of
              [] \<Rightarrow> [[x]]
            | y # ys \<Rightarrow> (x # y) # ys))"

text \<open>\<open>xs[i]\<close>: \<open>undefined\<close> out of range.\<close>

fun index :: "'a list \<Rightarrow> nat \<Rightarrow> 'a option" where
  "index [] i = None"
| "index (x # xs) 0 = Some x"
| "index (x # xs) (Suc i) = index xs i"

fun join :: "string \<Rightarrow> string list \<Rightarrow> string" where
  "join sep [] = []"
| "join sep [x] = x"
| "join sep (x # y # ys) = x @ sep @ join sep (y # ys)"

text \<open>\<open>toLowerCase\<close> on the ASCII letters (the model's characters are bytes).\<close>

definition lower_char :: "char \<Rightarrow> char" where
  "lower_char c =
     (case map_of (zip ''ABCDEFGHIJKLMNOPQRSTUVWXYZ'' ''abcdefghijklmnopqrstuvwxyz'') c of
        None \<Rightarrow> c
      | Some l \<Rightarrow> l)"

definition toLowerCase :: "string \<Rightarrow> string" where
  "toLowerCase s = map lower_char s"

section \<open>Authentication middleware (middleware/auth.middleware.ts)\<close>

text \<open>
  A middleware either calls \<open>next()\<close>, passing the request on (\<open>Inr\<close>, with what it
  attached), or \<open>next(error)\<close>, which ends in \<open>errorHandler\<close> without reaching the
  handler (\<open>Inl\<close>).
\<close>

definition protect :: "server \<Rightarrow> Request \<Rightarrow> error + Request" where
  "protect srv req =
     (case authorization req of
        None \<Rightarrow>
          Inl (AppError ''Authentication required. Please provide a valid access token.'' 401)
      | Some authHeader \<Rightarrow>
          (if authHeader = [] \<or> \<not> startsWith authHeader ''Bearer '' then
             Inl (AppError ''Authentication required. Please provide a valid access token.'' 401)
           else (case index (split_on CHR '' '' authHeader) 1 of
                   None \<Rightarrow> Inl (AppError ''Access token is missing'' 401)
                 | Some token \<Rightarrow>
                     (if token = [] then Inl (AppError ''Access token is missing'' 401)
                      else (case verifyAccessToken srv token of
                              Inl e \<Rightarrow> Inl e
                            | Inr decoded \<Rightarrow> Inr (req\<lparr>user := Some decoded\<rparr>))))))"

section \<open>RBAC middleware (middleware/rbac.middleware.ts)\<close>

definition restrictTo :: "UserRole list \<Rightarrow> Request \<Rightarrow> error + Request" where
  "restrictTo allowedRoles req =
     (case user req of
        None \<Rightarrow> Inl (AppError ''Authentication required. Please log in first.'' 401)
      | Some u \<Rightarrow>
          (if \<not> (case role u of None \<Rightarrow> False | Some r \<Rightarrow> r \<in> set allowedRoles) then
             Inl (AppError
                    (''Access denied. This action requires one of the following roles: ''
                       @ join '', '' (map role_value allowedRoles))
                    403)
           else Inr req))"

section \<open>Auth controller (controllers/auth.controller.ts)\<close>

text \<open>The cookie options as \<open>register\<close> and \<open>login\<close> each build them.\<close>

definition register_cookieOptions :: "server \<Rightarrow> CookieOptions" where
  "register_cookieOptions srv =
     \<lparr> httpOnly = True,
       secure = (if env_ALLOW_INSECURE_COOKIES (penv srv) = Some ''true'' then False
                 else NODE_ENV (config (penv srv)) = ''production''),
       sameSite = (if env_ALLOW_INSECURE_COOKIES (penv srv) = Some ''true'' then ''lax''
                   else if NODE_ENV (config (penv srv)) = ''production'' then ''none''
                   else ''lax''),
       maxAge = 7 * 24 * 60 * 60 * 1000 \<rparr>"

definition login_cookieOptions :: "server \<Rightarrow> CookieOptions" where
  "login_cookieOptions srv =
     \<lparr> httpOnly = True,
       secure = (if env_ALLOW_INSECURE_COOKIES (penv srv) = Some ''true'' then False
                 else NODE_ENV (config (penv srv)) = ''production''),
       sameSite = (if env_ALLOW_INSECURE_COOKIES (penv srv) = Some ''true'' then ''lax''
                   else if NODE_ENV (config (penv srv)) = ''production'' then ''none''
                   else ''lax''),
       maxAge = 7 * 24 * 60 * 60 * 1000 \<rparr>"

text \<open>The payload objects passed to the token service.\<close>

definition access_claims :: "string \<Rightarrow> string \<Rightarrow> UserRole \<Rightarrow> JWTPayload" where
  "access_claims uid em r =
     \<lparr> userId = Some uid, email = Some em, role = Some r, iat = None, exp = None,
       nbf = None, iss = None, aud = None \<rparr>"

definition refresh_claims :: "string \<Rightarrow> JWTPayload" where
  "refresh_claims uid =
     \<lparr> userId = Some uid, email = None, role = None, iat = None, exp = None,
       nbf = None, iss = None, aud = None \<rparr>"

text \<open>
  What \<open>register\<close> does once the user document exists (steps 4 to 6): both tokens,
  the cookie, the 201 response.
\<close>

definition register_respond :: "server \<Rightarrow> User \<Rightarrow> error + Response" where
  "register_respond srv u =
     (case generateAccessToken srv (access_claims (user_id u) (user_email u) (user_role u)) of
        Inl e \<Rightarrow> Inl e
      | Inr accessToken \<Rightarrow>
          (case generateRefreshToken srv (refresh_claims (user_id u)) of
             Inl e \<Rightarrow> Inl e
           | Inr refreshToken \<Rightarrow>
               Inr ((sendSuccess ''Registration successful''
                       (AuthData (user_id u) (username u) (user_email u) (user_role u)
                          accessToken)
                       201)
                    \<lparr>res_cookie := Some (''jwt'', refreshToken, register_cookieOptions srv)\<rparr>)))"

text \<open>
  \<open>login\<close>, with the queries it issued. \<open>!email || !password\<close> is answered with 400.
  Past that guard \<open>email.toLowerCase()\<close> is evaluated before the query is sent: on a
  value that is not a string it throws a \<open>TypeError\<close>, an exception that is not an
  \<open>AppError\<close>.
\<close>

definition login :: "server \<Rightarrow> Request \<Rightarrow> (error + Response) \<times> db_op list" where
  "login srv req =
     (if \<not> js_truthy (body_email req) \<or> \<not> js_truthy (body_password req) then
        (Inl (AppError ''Please provide email and password'' 400), [])
      else (case body_email req of
              JString em \<Rightarrow>
                ((case findOne_email_provider srv (toLowerCase em) ''local'' of
                    None \<Rightarrow> Inl (AppError ''Invalid email or password'' 401)
                  | Some u \<Rightarrow>
                      (if \<not> comparePassword srv u (body_password req) then
                         Inl (AppError ''Invalid email or password'' 401)
                       else if \<not> isActive u then
                         Inl (AppError
                                ''Your account has been deactivated. Please contact support.''
                                403)
                       else (case generateAccessToken srv
                                    (access_claims (user_id u) (user_email u) (user_role u)) of
                               Inl e \<Rightarrow> Inl e
                             | Inr accessToken \<Rightarrow>
                                 (case generateRefreshToken srv (refresh_claims (user_id u)) of
                                    Inl e \<Rightarrow> Inl e
                                  | Inr refreshToken \<Rightarrow>
                                      Inr ((sendSuccess ''Login successful''
                                              (AuthData (user_id u) (username u) (user_email u)
                                                 (user_role u) accessToken)
                                              200)
                                           \<lparr>res_cookie :=
                                              Some (''jwt'', refreshToken,
                                                    login_cookieOptions srv)\<rparr>))))),
                 [FindOne (toLowerCase em) ''local''])
            | _ \<Rightarrow> (Inl (Error ''email.toLowerCase is not a function''), [])))"

text \<open>The status of the HTTP answer: the response's own, or the one \<open>errorHandler\<close> sends.\<close>

definition http_status :: "error + Response \<Rightarrow> nat" where
  "http_status r = (case r of Inl e \<Rightarrow> statusCode e | Inr res \<Rightarrow> res_status res)"

definition refreshToken :: "server \<Rightarrow> Request \<Rightarrow> error + Response" where
  "refreshToken srv req =
     (case cookies_jwt req of
        None \<Rightarrow> Inl (AppError ''Refresh token not found. Please log in again.'' 401)
      | Some rtok \<Rightarrow>
          (if rtok = [] then
             Inl (AppError ''Refresh token not found. Please log in again.'' 401)
           else (case verifyRefreshToken srv rtok of
                   Inl e \<Rightarrow> Inl e
                 | Inr decoded \<Rightarrow>
                     (case findById srv (userId decoded) of
                        None \<Rightarrow>
                          Inl (AppError ''User no longer exists. Please log in again.'' 401)
                      | Some u \<Rightarrow>
                          (if \<not> isActive u then
                             Inl (AppError
                                    ''Your account has been deactivated. Please contact support.''
                                    403)
                           else (case generateAccessToken srv
                                        (access_claims (user_id u) (user_email u)
                                           (user_role u)) of
                                   Inl e \<Rightarrow> Inl e
                                 | Inr newAccessToken \<Rightarrow>
                                     Inr (sendSuccess ''Token refreshed successfully''
                                            (TokenData newAccessToken) 200)))))))"

definition getMe :: "server \<Rightarrow> Request \<Rightarrow> error + Response" where
  "getMe srv req =
     (case user req of
        None \<Rightarrow> Inl (AppError ''User not found in request'' 401)
      | Some claims \<Rightarrow>
          (case findById srv (userId claims) of
             None \<Rightarrow> Inl (AppError ''User not found'' 404)
           | Some u \<Rightarrow>
               Inr (sendSuccess ''User retrieved successfully''
                      (MeData (user_id u) (username u) (user_email u) (user_role u)
                         (isActive u) (createdAt u))
                      200)))"

text \<open>\<open>router.get('/me', protect, AuthController.getMe)\<close> (routes/auth.routes.ts).\<close>

definition route_me :: "server \<Rightarrow> Request \<Rightarrow> error + Response" where
  "route_me srv req = (case protect srv req of Inl e \<Rightarrow> Inl e | Inr req' \<Rightarrow> getMe srv req')"

section \<open>User controller (controllers/user.controller.ts)\<close>

text \<open>
  The controller's result together with the collection it leaves behind and the
  queries it issued, in order.
\<close>

definition updateUserStatus ::
  "server \<Rightarrow> Request \<Rightarrow> (error + Response) \<times> User list \<times> db_op list" where
  "updateUserStatus srv req =
     (case body_isActive req of
        JBool b \<Rightarrow>
          (if (case user req of None \<Rightarrow> False | Some c \<Rightarrow> userId c = Some (params_id req)) then
             (Inl (AppError ''Admins cannot ban themselves'' 400), users srv, [])
           else (case findById srv (Some (params_id req)) of
                   None \<Rightarrow>
                     (Inl (AppError ''User not found'' 404), users srv,
                      [FindById (params_id req)])
                 | Some u \<Rightarrow>
                     (if user_role u = ADMIN \<and> \<not> b then
                        (Inl (AppError ''Cannot ban other administrators'' 403), users srv,
                         [FindById (params_id req)])
                      else
                        (Inr (sendSuccess
                                (''User '' @ (if b then ''activated'' else ''banned'')
                                   @ '' successfully'')
                                (StatusData (user_id u) (username u) (user_email u)
                                   (user_role u) b)
                                200),
                         save (users srv) (u\<lparr>isActive := b\<rparr>),
                         [FindById (params_id req), Save (user_id u)]))))
      | _ \<Rightarrow> (Inl (AppError ''isActive must be a boolean value'' 400), users srv, []))"

section \<open>Client token orchestrator (client/lib/axios.ts)\<close>

text \<open>
  The module state: the variables \<open>accessToken\<close>, \<open>isRefreshing\<close> and \<open>failedQueue\<close>,
  the item \<open>'accessToken'\<close> of \<open>window.localStorage\<close> (durable) and of
  \<open>window.sessionStorage\<close> (per tab session), and whether \<open>window\<close> is defined.

  A request is its configuration: the \<open>Authorization\<close> header and the \<open>_retry\<close> mark
  (\<open>call\<close> tells requests apart). An entry of \<open>failedQueue\<close> is the pair of
  continuations of one suspended call; it is represented by the request that call
  retries when resolved. \<open>awaiting\<close> holds the calls suspended at
  \<open>await axios.post(.../auth/refresh)\<close>, oldest first; it is the model's account of
  the pending asynchronous functions, not a variable of the module.
\<close>

record AxiosRequestConfig =
  call :: nat
  Authorization :: "string option"
  retry :: bool

record client =
  accessToken :: "string option"
  isRefreshing :: bool
  failedQueue :: "AxiosRequestConfig list"
  localStorage_accessToken :: "string option"
  sessionStorage_accessToken :: "string option"
  window_defined :: bool
  awaiting :: "AxiosRequestConfig list"

text \<open>
  What the module does to the outside: the refresh call, a request handed to the
  transport, the rejection of a call's promise, the redirect.
\<close>

datatype failure = ResponseError "nat option" | RefreshError string

datatype effect =
    PostRefresh
  | Dispatch AxiosRequestConfig
  | Rejected AxiosRequestConfig failure
  | Redirect string

text \<open>JavaScript truthiness of a \<open>string | null\<close>.\<close>

fun truthy :: "string option \<Rightarrow> bool" where
  "truthy None = False"
| "truthy (Some s) = (s \<noteq> [])"

text \<open>
  The request interceptor: the token is \<open>accessToken || localStorage.getItem('accessToken')\<close>
  (the latter only in a browser); if there is one it becomes the bearer credential and,
  when the variable was empty, is copied into it.
\<close>

definition request_interceptor ::
  "client \<Rightarrow> AxiosRequestConfig \<Rightarrow> client \<times> AxiosRequestConfig" where
  "request_interceptor st cfg =
     (let token = (if truthy (accessToken st) then accessToken st
                   else if window_defined st then localStorage_accessToken st
                   else None)
      in (case token of
            None \<Rightarrow> (st, cfg)
          | Some t \<Rightarrow>
              (if t = [] then (st, cfg)
               else ((if \<not> truthy (accessToken st) then st\<lparr>accessToken := Some t\<rparr> else st),
                     cfg\<lparr>Authorization := Some (''Bearer '' @ t)\<rparr>))))"

definition setTokens :: "client \<Rightarrow> string \<Rightarrow> client" where
  "setTokens st access =
     (let st1 = st\<lparr>accessToken := Some access\<rparr>
      in if window_defined st then st1\<lparr>sessionStorage_accessToken := Some access\<rparr> else st1)"

definition getAccessToken :: "client \<Rightarrow> client \<times> string option" where
  "getAccessToken st =
     (let st1 = (if \<not> truthy (accessToken st) \<and> window_defined st
                 then st\<lparr>accessToken := sessionStorage_accessToken st\<rparr> else st)
      in (st1, accessToken st1))"

definition clearTokens :: "client \<Rightarrow> client" where
  "clearTokens st =
     (let st1 = st\<lparr>accessToken := None\<rparr>
      in if window_defined st then st1\<lparr>sessionStorage_accessToken := None\<rparr> else st1)"

definition initializeTokens :: "client \<Rightarrow> client" where
  "initializeTokens st =
     (if window_defined st \<and> truthy (sessionStorage_accessToken st)
      then st\<lparr>accessToken := sessionStorage_accessToken st\<rparr> else st)"

text \<open>
  \<open>apiClient(config)\<close>: the request passes the request interceptor and goes out.
\<close>

definition apiClient :: "client \<Rightarrow> AxiosRequestConfig \<Rightarrow> client \<times> effect list" where
  "apiClient st cfg = (case request_interceptor st cfg of (st', cfg') \<Rightarrow> (st', [Dispatch cfg']))"

text \<open>
  The continuation of a queued call: resolved with a token it sets its header and
  retries; rejected, its promise rejects with the same error.
\<close>

definition resume :: "client \<Rightarrow> AxiosRequestConfig \<Rightarrow> string \<Rightarrow> client \<times> effect list" where
  "resume st originalRequest token =
     apiClient st (originalRequest\<lparr>Authorization := Some (''Bearer '' @ token)\<rparr>)"

fun resume_all ::
  "client \<Rightarrow> AxiosRequestConfig list \<Rightarrow> string \<Rightarrow> client \<times> effect list" where
  "resume_all st [] token = (st, [])"
| "resume_all st (q # qs) token =
     (case resume st q token of
        (st1, out1) \<Rightarrow> (case resume_all st1 qs token of (st2, out2) \<Rightarrow> (st2, out1 @ out2)))"

text \<open>
  The error branch of the response interceptor up to its \<open>await\<close>: a 401 on a request
  not yet marked \<open>_retry\<close> either joins the queue (a refresh is in flight) or marks
  the request, raises \<open>isRefreshing\<close> and posts the refresh; anything else is passed on.
\<close>

definition on_response_error ::
  "client \<Rightarrow> AxiosRequestConfig \<Rightarrow> nat option \<Rightarrow> client \<times> effect list" where
  "on_response_error st originalRequest status =
     (if status = Some 401 \<and> \<not> retry originalRequest then
        (if isRefreshing st then
           (st\<lparr>failedQueue := failedQueue st @ [originalRequest]\<rparr>, [])
         else
           (st\<lparr>isRefreshing := True,
                awaiting := awaiting st @ [originalRequest\<lparr>retry := True\<rparr>]\<rparr>,
            [PostRefresh]))
      else (st, [Rejected originalRequest (ResponseError status)]))"

text \<open>
  The rest of the \<open>try\<close> block once the refresh call has answered with a new token:
  \<open>setTokens\<close>, the new header on the original request, \<open>processQueue(null, token)\<close>
  (which resolves every queued call and empties the queue), the retry of the original
  request, and \<open>finally\<close>. Resolving a queued call only schedules its continuation;
  the continuations run, in queue order, as soon as the interceptor has returned and
  before any other event, so their requests follow the retry of the original one.
\<close>

definition on_refresh_success ::
  "client \<Rightarrow> AxiosRequestConfig \<Rightarrow> string \<Rightarrow> client \<times> effect list" where
  "on_refresh_success st originalRequest newAccessToken =
     (let st1 = setTokens st newAccessToken;
          originalRequest' = originalRequest\<lparr>Authorization := Some (''Bearer '' @ newAccessToken)\<rparr>;
          queued = failedQueue st1;
          st2 = st1\<lparr>failedQueue := []\<rparr>
      in (case apiClient st2 originalRequest' of
            (st3, out_original) \<Rightarrow>
              (case resume_all (st3\<lparr>isRefreshing := False\<rparr>) queued newAccessToken of
                 (st4, out_queued) \<Rightarrow> (st4, out_original @ out_queued))))"

text \<open>
  The \<open>catch\<close> block: \<open>processQueue(refreshError, null)\<close> rejects every queued call,
  \<open>clearTokens\<close>, the redirect, the rejection of the original call, and \<open>finally\<close>.
\<close>

definition on_refresh_failure ::
  "client \<Rightarrow> AxiosRequestConfig \<Rightarrow> string \<Rightarrow> client \<times> effect list" where
  "on_refresh_failure st originalRequest refreshError =
     (let queued = failedQueue st;
          st1 = clearTokens (st\<lparr>failedQueue := []\<rparr>)
      in (st1\<lparr>isRefreshing := False\<rparr>,
          map (\<lambda>q. Rejected q (RefreshError refreshError)) queued
            @ (if window_defined st then [Redirect ''/auth/login''] else [])
            @ [Rejected originalRequest (RefreshError refreshError)]))"

text \<open>
  The events the module reacts to, one at a time (the runtime is single-threaded): a
  failed response, and the settling of the oldest pending refresh call.
\<close>

datatype event =
    ResponseFailed AxiosRequestConfig "nat option"
  | RefreshResolved string
  | RefreshRejected string

fun step :: "client \<Rightarrow> event \<Rightarrow> client \<times> effect list" where
  "step st (ResponseFailed cfg status) = on_response_error st cfg status"
| "step st (RefreshResolved token) =
     (case awaiting st of
        [] \<Rightarrow> (st, [])
      | c # cs \<Rightarrow> on_refresh_success (st\<lparr>awaiting := cs\<rparr>) c token)"
| "step st (RefreshRejected err) =
     (case awaiting st of
        [] \<Rightarrow> (st, [])
      | c # cs \<Rightarrow> on_refresh_failure (st\<lparr>awaiting := cs\<rparr>) c err)"

fun run :: "client \<Rightarrow> event list \<Rightarrow> client \<times> effect list" where
  "run st [] = (st, [])"
| "run st (e # es) =
     (case step st e of
        (st1, out1) \<Rightarrow> (case run st1 es of (st2, out2) \<Rightarrow> (st2, out1 @ out2)))"

section \<open>Auxiliary definitions for the statements\<close>

text \<open>
  What the token service hands to the serialiser for a payload \<open>p\<close> at time \<open>t\<close> when
  the configured lifetime parses to \<open>span\<close> seconds, and the property of the
  serialisation that a token can be read back.
\<close>

definition access_jws :: "process_env \<Rightarrow> nat \<Rightarrow> nat \<Rightarrow> JWTPayload \<Rightarrow> jws" where
  "access_jws e t span p =
     signed_jws t span (access_sign_options e) (JWT_ACCESS_SECRET (config e)) p"

definition refresh_jws :: "process_env \<Rightarrow> nat \<Rightarrow> nat \<Rightarrow> JWTPayload \<Rightarrow> jws" where
  "refresh_jws e t span p =
     signed_jws t span (refresh_sign_options e) (JWT_REFRESH_SECRET (config e)) p"

definition reads_back :: "server \<Rightarrow> jws \<Rightarrow> bool" where
  "reads_back srv j = (jwt_decode srv (jwt_encode srv j) = Some j)"

text \<open>
  A concrete server for the instances below: no environment variable set (so the
  fallback secrets and the lifetimes \<open>'15m'\<close> and \<open>'7d'\<close> apply), the clock at 1000, one
  active local user, a serialisation that knows her two tokens, and a password check
  that accepts the hash \<open>hash:<password>\<close>.
\<close>

definition sample_env :: process_env where
  "sample_env =
     \<lparr> env_NODE_ENV = None, env_JWT_ACCESS_SECRET = None, env_JWT_REFRESH_SECRET = None,
       env_JWT_ACCESS_EXPIRY = None, env_JWT_REFRESH_EXPIRY = None,
       env_ALLOW_INSECURE_COOKIES = None \<rparr>"

definition alice :: User where
  "alice =
     \<lparr> user_id = ''64a1'', username = ''alice'', user_email = ''alice@x.com'',
       password = Some ''hash:Passw0rd1'', user_role = USER, provider = ''local'',
       isActive = True, createdAt = 500, updatedAt = 500 \<rparr>"

definition alice_access :: jws where
  "alice_access = access_jws sample_env 1000 900 (access_claims ''64a1'' ''alice@x.com'' USER)"

definition alice_refresh :: jws where
  "alice_refresh = refresh_jws sample_env 1000 604800 (refresh_claims ''64a1'')"

definition sample_server :: server where
  "sample_server =
     \<lparr> penv = sample_env, clock = 1000, users = [alice],
       jwt_encode = (\<lambda>j. if j = alice_access then ''access.alice''
                          else if j = alice_refresh then ''refresh.alice'' else ''other''),
       jwt_decode = (\<lambda>s. if s = ''access.alice'' then Some alice_access
                          else if s = ''refresh.alice'' then Some alice_refresh else None),
       timespan = (\<lambda>s. if s = ''15m'' then Some 900
                        else if s = ''7d'' then Some 604800 else None),
       bcrypt_compare = (\<lambda>candidate h. h = ''hash:'' @ candidate) \<rparr>"

definition sample_request :: Request where
  "sample_request =
     \<lparr> authorization = None, cookies_jwt = None, params_id = ''64a1'',
       body_email = JUndefined, body_password = JUndefined, body_isActive = JUndefined,
       user = None \<rparr>"

text \<open>
  The same server started with \<open>JWT_ACCESS_EXPIRY=soon\<close>, which is not a time span.
\<close>

definition misconfigured_server :: server where
  "misconfigured_server =
     sample_server\<lparr>penv := sample_env\<lparr>env_JWT_ACCESS_EXPIRY := Some ''soon''\<rparr>\<rparr>"

text \<open>
  Client states: a fresh one, and one whose only token sits in \<open>localStorage\<close>.
\<close>

definition idle_client :: client where
  "idle_client =
     \<lparr> accessToken = Some ''old.jwt'', isRefreshing = False, failedQueue = [],
       localStorage_accessToken = None, sessionStorage_accessToken = Some ''old.jwt'',
       window_defined = True, awaiting = [] \<rparr>"

definition durable_only :: client where
  "durable_only =
     \<lparr> accessToken = None, isRefreshing = False, failedQueue = [],
       localStorage_accessToken = Some ''old.jwt'', sessionStorage_accessToken = None,
       window_defined = True, awaiting = [] \<rparr>"

definition request_of :: "nat \<Rightarrow> AxiosRequestConfig" where
  "request_of n = \<lparr> call = n, Authorization = Some ''Bearer old.jwt'', retry = False \<rparr>"

section \<open>Auxiliary lemmas\<close>

subsection \<open>Token service\<close>

lemma or_default_nonempty: "d \<noteq> [] \<Longrightarrow> or_default v d \<noteq> []"
  by (cases v) auto

lemma access_secret_nonempty: "JWT_ACCESS_SECRET (config e) \<noteq> []"
  by (simp add: config_def or_default_nonempty)

lemma refresh_secret_nonempty: "JWT_REFRESH_SECRET (config e) \<noteq> []"
  by (simp add: config_def or_default_nonempty)

lemma generateAccessToken_Inr:
  assumes "generateAccessToken srv p = Inr tok"
    and "timespan srv (JWT_ACCESS_EXPIRY (config (penv srv))) = Some span"
  shows "tok = jwt_encode srv (access_jws (penv srv) (clock srv) span p)"
  using assms
  by (auto simp: generateAccessToken_def jwt_sign_def access_jws_def access_sign_options_def
      split: if_splits option.splits)

lemma generateRefreshToken_Inr:
  assumes "generateRefreshToken srv p = Inr tok"
    and "timespan srv (JWT_REFRESH_EXPIRY (config (penv srv))) = Some span"
  shows "tok = jwt_encode srv (refresh_jws (penv srv) (clock srv) span p)"
  using assms
  by (auto simp: generateRefreshToken_def jwt_sign_def refresh_jws_def refresh_sign_options_def
      split: if_splits option.splits)

lemma generateAccessToken_claims:
  assumes "timespan srv (JWT_ACCESS_EXPIRY (config (penv srv))) = Some span"
  shows "generateAccessToken srv (access_claims uid em r)
           = Inr (jwt_encode srv (access_jws (penv srv) (clock srv) span (access_claims uid em r)))"
  using assms access_secret_nonempty[of "penv srv"]
  by (simp add: generateAccessToken_def jwt_sign_def access_jws_def access_sign_options_def
      access_claims_def)

lemma generateRefreshToken_claims:
  assumes "timespan srv (JWT_REFRESH_EXPIRY (config (penv srv))) = Some span"
  shows "generateRefreshToken srv (refresh_claims uid)
           = Inr (jwt_encode srv (refresh_jws (penv srv) (clock srv) span (refresh_claims uid)))"
  using assms refresh_secret_nonempty[of "penv srv"]
  by (simp add: generateRefreshToken_def jwt_sign_def refresh_jws_def refresh_sign_options_def
      refresh_claims_def)

lemma access_error_401: "statusCode (access_error e) = 401"
  by (cases e) (simp_all add: statusCode_def)


lemma verifyAccessToken_401: "verifyAccessToken srv tok = Inl e \<Longrightarrow> statusCode e = 401"
  by (auto simp: verifyAccessToken_def access_error_401 split: sum.splits)



lemma jwt_verify_users:
  "jwt_verify (srv\<lparr>users := db\<rparr>) tok secret opts = jwt_verify srv tok secret opts"
  by (simp add: jwt_verify_def cong: option.case_cong if_cong)

lemma verifyAccessToken_users:
  "verifyAccessToken (srv\<lparr>users := db\<rparr>) tok = verifyAccessToken srv tok"
  by (simp add: verifyAccessToken_def jwt_verify_users)

subsection \<open>Middleware and controllers\<close>

lemma split_on_nonempty: "split_on c xs \<noteq> []"
  by (induction xs) (auto split: list.splits)

lemma split_on_hd: "index (split_on c xs) 0 = Some (takeWhile (\<lambda>x. x \<noteq> c) xs)"
proof (induction xs)
  case Nil
  then show ?case by simp
next
  case (Cons x xs)
  then show ?case
    using split_on_nonempty[of c xs] by (cases "split_on c xs") auto
qed

lemma bearer_token:
  "index (split_on CHR '' '' (''Bearer '' @ rest)) 1 = Some (takeWhile (\<lambda>x. x \<noteq> CHR '' '') rest)"
proof -
  have "split_on CHR '' '' (''Bearer '' @ rest) = ''Bearer'' # split_on CHR '' '' rest"
    using split_on_nonempty[of "CHR '' ''" rest]
    by (cases "split_on CHR '' '' rest") simp_all
  then show ?thesis using split_on_hd[of "CHR '' ''" rest] by simp
qed

lemma protect_bearer:
  assumes "authorization req = Some (''Bearer '' @ rest)"
  shows "protect srv req =
        (if takeWhile (\<lambda>x. x \<noteq> CHR '' '') rest = [] then Inl (AppError ''Access token is missing'' 401)
         else (case verifyAccessToken srv (takeWhile (\<lambda>x. x \<noteq> CHR '' '') rest) of
                 Inl e \<Rightarrow> Inl e | Inr decoded \<Rightarrow> Inr (req\<lparr>user := Some decoded\<rparr>)))"
  using assms bearer_token by (simp add: protect_def startsWith_def)

lemma protect_failure_401:
  assumes "protect srv req = Inl e" shows "statusCode e = 401"
  using assms verifyAccessToken_401
  by (auto simp: protect_def statusCode_def split: option.splits if_splits sum.splits)



lemma cookieOptions_same: "login_cookieOptions srv = register_cookieOptions srv"
  by (simp add: login_cookieOptions_def register_cookieOptions_def)

subsection \<open>Client\<close>

lemma run_append:
  "run st (es @ fs) =
     (case run st es of (st1, out1) \<Rightarrow> (case run st1 fs of (st2, out2) \<Rightarrow> (st2, out1 @ out2)))"
  by (induction es arbitrary: st) (auto split: prod.splits)

lemma run_queue:
  assumes "isRefreshing st" and "\<forall>r \<in> set cs. \<not> retry r"
  shows "run st (map (\<lambda>r. ResponseFailed r (Some 401)) cs)
           = (st\<lparr>failedQueue := failedQueue st @ cs\<rparr>, [])"
  using assms
proof (induction cs arbitrary: st)
  case Nil
  then show ?case by simp
next
  case (Cons c cs)
  have "step st (ResponseFailed c (Some 401)) = (st\<lparr>failedQueue := failedQueue st @ [c]\<rparr>, [])"
    using Cons.prems by (simp add: on_response_error_def)
  moreover have "run (st\<lparr>failedQueue := failedQueue st @ [c]\<rparr>) (map (\<lambda>r. ResponseFailed r (Some 401)) cs)
      = (st\<lparr>failedQueue := failedQueue st @ [c]\<rparr>\<lparr>failedQueue := failedQueue (st\<lparr>failedQueue := failedQueue st @ [c]\<rparr>) @ cs\<rparr>, [])"
    using Cons.prems by (intro Cons.IH) simp_all
  ultimately show ?case by simp
qed

lemma apiClient_with_token:
  assumes "accessToken st = Some t" and "t \<noteq> []"
  shows "apiClient st cfg = (st, [Dispatch (cfg\<lparr>Authorization := Some (''Bearer '' @ t)\<rparr>)])"
  using assms by (simp add: apiClient_def request_interceptor_def)

lemma resume_all_with_token:
  assumes "accessToken st = Some t" and "t \<noteq> []"
  shows "resume_all st qs t
           = (st, map (\<lambda>q. Dispatch (q\<lparr>Authorization := Some (''Bearer '' @ t)\<rparr>)) qs)"
  using assms
  by (induction qs) (simp_all add: resume_def apiClient_with_token)

lemma run_failures:
  assumes "\<not> isRefreshing st" and "\<forall>r \<in> set (c # cs). \<not> retry r"
  shows "run st (map (\<lambda>r. ResponseFailed r (Some 401)) (c # cs))
           = (st\<lparr>isRefreshing := True, awaiting := awaiting st @ [c\<lparr>retry := True\<rparr>],
                  failedQueue := failedQueue st @ cs\<rparr>, [PostRefresh])"
proof -
  let ?st1 = "st\<lparr>isRefreshing := True, awaiting := awaiting st @ [c\<lparr>retry := True\<rparr>]\<rparr>"
  have "step st (ResponseFailed c (Some 401)) = (?st1, [PostRefresh])"
    using assms by (simp add: on_response_error_def)
  moreover have "run ?st1 (map (\<lambda>r. ResponseFailed r (Some 401)) cs)
      = (?st1\<lparr>failedQueue := failedQueue ?st1 @ cs\<rparr>, [])"
    using assms by (intro run_queue) simp_all
  ultimately show ?thesis by simp
qed

subsection \<open>The sample server\<close>

lemma sample_config:
  "JWT_ACCESS_SECRET (config sample_env) = ''fallback-secret-change-in-production''"
  "JWT_REFRESH_SECRET (config sample_env) = ''fallback-refresh-change-in-production''"
  "JWT_ACCESS_EXPIRY (config sample_env) = ''15m''"
  "JWT_REFRESH_EXPIRY (config sample_env) = ''7d''"
  "NODE_ENV (config sample_env) = ''development''"
  by (simp_all add: config_def sample_env_def)

lemma alice_jws_distinct: "alice_access \<noteq> alice_refresh"
  by (simp add: alice_access_def alice_refresh_def access_jws_def refresh_jws_def
      signed_jws_def signed_payload_def access_claims_def refresh_claims_def)

lemma sample_reads_back: "reads_back sample_server alice_access" "reads_back sample_server alice_refresh"
  using alice_jws_distinct by (simp_all add: reads_back_def sample_server_def)

lemma sample_penv: "penv sample_server = sample_env" "clock sample_server = 1000"
  "users sample_server = [alice]"
  by (simp_all add: sample_server_def)

lemma sample_timespan:
  "timespan sample_server (JWT_ACCESS_EXPIRY (config (penv sample_server))) = Some 900"
  "timespan sample_server (JWT_REFRESH_EXPIRY (config (penv sample_server))) = Some 604800"
  by (simp_all add: sample_server_def sample_config)

lemma sample_generate:
  "generateAccessToken sample_server (access_claims ''64a1'' ''alice@x.com'' USER)
     = Inr ''access.alice''"
  "generateRefreshToken sample_server (refresh_claims ''64a1'') = Inr ''refresh.alice''"
  using alice_jws_distinct
  by (simp_all add: generateAccessToken_claims[OF sample_timespan(1)]
      generateRefreshToken_claims[OF sample_timespan(2)] sample_penv
      alice_access_def[symmetric] alice_refresh_def[symmetric])
     (simp_all add: sample_server_def)

lemma alice_payloads:
  "payload alice_access
     = \<lparr> userId = Some ''64a1'', email = Some ''alice@x.com'', role = Some USER,
         iat = Some 1000, exp = Some 1900, nbf = None,
         iss = Some ''secureauth-gateway'', aud = Some ''secureauth-api'' \<rparr>"
  "payload alice_refresh
     = \<lparr> userId = Some ''64a1'', email = None, role = None,
         iat = Some 1000, exp = Some 605800, nbf = None,
         iss = Some ''secureauth-gateway'', aud = Some ''secureauth-api'' \<rparr>"
  by (simp_all add: alice_access_def alice_refresh_def access_jws_def refresh_jws_def
      signed_jws_def signed_payload_def sign_timestamp_def access_claims_def refresh_claims_def
      access_sign_options_def refresh_sign_options_def)

lemma alice_signatures:
  "signature alice_access = HS256 (JWT_ACCESS_SECRET (config sample_env)) (payload alice_access)"
  "signature alice_refresh = HS256 (JWT_REFRESH_SECRET (config sample_env)) (payload alice_refresh)"
  by (simp_all add: alice_access_def alice_refresh_def access_jws_def refresh_jws_def
      signed_jws_def)

lemma sample_decode:
  "jwt_decode (sample_server\<lparr>clock := t, users := db\<rparr>) ''access.alice'' = Some alice_access"
  "jwt_decode (sample_server\<lparr>clock := t, users := db\<rparr>) ''refresh.alice'' = Some alice_refresh"
  "jwt_decode (sample_server\<lparr>clock := t, users := db\<rparr>) ''garbage'' = None"
  by (simp_all add: sample_server_def)

lemma sample_verify_access:
  "t < 1900 \<Longrightarrow> verifyAccessToken (sample_server\<lparr>clock := t, users := db\<rparr>) ''access.alice''
     = Inr (payload alice_access)"
  using access_secret_nonempty[of sample_env]
  by (simp add: verifyAccessToken_def jwt_verify_def sample_decode alice_signatures
      alice_payloads sample_server_def)


lemma sample_server_same: "sample_server\<lparr>clock := 1000, users := [alice]\<rparr> = sample_server"
  by (simp add: sample_server_def)

lemma sample_clock_same: "sample_server\<lparr>clock := 1000\<rparr> = sample_server"
  by (simp add: sample_server_def)

section \<open>The claims\<close>

text \<open>
  Claim C1. When N calls (N at least 2) each fail with 401 at the same logical instant,
  that is, all N failures are handled before the refresh call settles, starting from a
  client with no refresh in flight: the first failure posts the one and only refresh
  call and every other failing call is queued (as such a call is in any state in which
  a refresh is in flight). When the refresh resolves with a new
  (non-empty) access token, the token is stored, every queued call and the initiator
  are retried exactly once, each carrying that token, and the queue is empty; when it
  fails, every queued call and the initiator are rejected with the refresh error, the
  tokens are cleared and the queue is empty. No queued call is lost in either case.
\<close>

theorem single_flight_refresh:
  assumes idle: "\<not> isRefreshing st \<and> failedQueue st = [] \<and> awaiting st = []"
    and fresh: "\<forall>r \<in> set (c # cs). \<not> retry r"
    and tok: "newToken \<noteq> []"
  shows
   "run st (map (\<lambda>r. ResponseFailed r (Some 401)) (c # cs))
      = (st\<lparr>isRefreshing := True, awaiting := [c\<lparr>retry := True\<rparr>], failedQueue := cs\<rparr>,
         [PostRefresh]) \<and>
    (\<forall>st'. isRefreshing st' \<longrightarrow>
       run st' (map (\<lambda>r. ResponseFailed r (Some 401)) cs)
         = (st'\<lparr>failedQueue := failedQueue st' @ cs\<rparr>, [])) \<and>
    run st (map (\<lambda>r. ResponseFailed r (Some 401)) (c # cs) @ [RefreshResolved newToken])
      = ((setTokens st newToken)\<lparr>isRefreshing := False, awaiting := [], failedQueue := []\<rparr>,
         [PostRefresh]
           @ [Dispatch (c\<lparr>retry := True, Authorization := Some (''Bearer '' @ newToken)\<rparr>)]
           @ map (\<lambda>q. Dispatch (q\<lparr>Authorization := Some (''Bearer '' @ newToken)\<rparr>)) cs) \<and>
    accessToken (setTokens st newToken) = Some newToken \<and>
    length (filter (\<lambda>e. e = PostRefresh)
      (snd (run st (map (\<lambda>r. ResponseFailed r (Some 401)) (c # cs)
                      @ [RefreshResolved newToken])))) = 1 \<and>
    run st (map (\<lambda>r. ResponseFailed r (Some 401)) (c # cs) @ [RefreshRejected err])
      = ((clearTokens st)\<lparr>isRefreshing := False, awaiting := [], failedQueue := []\<rparr>,
         [PostRefresh]
           @ map (\<lambda>q. Rejected q (RefreshError err)) cs
           @ (if window_defined st then [Redirect ''/auth/login''] else [])
           @ [Rejected (c\<lparr>retry := True\<rparr>) (RefreshError err)]) \<and>
    accessToken (clearTokens st) = None \<and>
    length (filter (\<lambda>e. e = PostRefresh)
      (snd (run st (map (\<lambda>r. ResponseFailed r (Some 401)) (c # cs)
                      @ [RefreshRejected err])))) = 1"
proof -
  let ?fails = "map (\<lambda>r. ResponseFailed r (Some 401)) (c # cs)"
  let ?mid = "st\<lparr>isRefreshing := True, awaiting := [c\<lparr>retry := True\<rparr>], failedQueue := cs\<rparr>"
  have mid: "run st ?fails = (?mid, [PostRefresh])"
    using run_failures[of st c cs] idle fresh by simp
  have queued: "\<forall>st'. isRefreshing st' \<longrightarrow>
       run st' (map (\<lambda>r. ResponseFailed r (Some 401)) cs)
         = (st'\<lparr>failedQueue := failedQueue st' @ cs\<rparr>, [])"
    using run_queue[of _ cs] fresh by simp
  have tokset: "accessToken (setTokens st newToken) = Some newToken"
    by (simp add: setTokens_def Let_def)
  have tokclear: "accessToken (clearTokens st) = None"
    by (simp add: clearTokens_def Let_def)
  have ok: "step ?mid (RefreshResolved newToken)
      = ((setTokens st newToken)\<lparr>isRefreshing := False, awaiting := [], failedQueue := []\<rparr>,
         [Dispatch (c\<lparr>retry := True, Authorization := Some (''Bearer '' @ newToken)\<rparr>)]
           @ map (\<lambda>q. Dispatch (q\<lparr>Authorization := Some (''Bearer '' @ newToken)\<rparr>)) cs)"
    using tok
    by (simp add: on_refresh_success_def Let_def setTokens_def apiClient_with_token
        resume_all_with_token)
  have bad: "step ?mid (RefreshRejected err)
      = ((clearTokens st)\<lparr>isRefreshing := False, awaiting := [], failedQueue := []\<rparr>,
         map (\<lambda>q. Rejected q (RefreshError err)) cs
           @ (if window_defined st then [Redirect ''/auth/login''] else [])
           @ [Rejected (c\<lparr>retry := True\<rparr>) (RefreshError err)])"
    by (simp add: on_refresh_failure_def Let_def clearTokens_def)
  have r1: "run st (?fails @ [RefreshResolved newToken])
      = ((setTokens st newToken)\<lparr>isRefreshing := False, awaiting := [], failedQueue := []\<rparr>,
         [PostRefresh]
           @ [Dispatch (c\<lparr>retry := True, Authorization := Some (''Bearer '' @ newToken)\<rparr>)]
           @ map (\<lambda>q. Dispatch (q\<lparr>Authorization := Some (''Bearer '' @ newToken)\<rparr>)) cs)"
    unfolding run_append mid using ok by simp
  have r2: "run st (?fails @ [RefreshRejected err])
      = ((clearTokens st)\<lparr>isRefreshing := False, awaiting := [], failedQueue := []\<rparr>,
         [PostRefresh]
           @ map (\<lambda>q. Rejected q (RefreshError err)) cs
           @ (if window_defined st then [Redirect ''/auth/login''] else [])
           @ [Rejected (c\<lparr>retry := True\<rparr>) (RefreshError err)])"
    unfolding run_append mid using bad by simp
  have n1: "length (filter (\<lambda>e. e = PostRefresh) (snd (run st (?fails @ [RefreshResolved newToken])))) = 1"
    unfolding r1 by (simp add: filter_map o_def)
  have n2: "length (filter (\<lambda>e. e = PostRefresh) (snd (run st (?fails @ [RefreshRejected err])))) = 1"
    unfolding r2 by (simp add: filter_map o_def)
  show ?thesis
    by (intro conjI) (rule mid queued r1 r2 tokset tokclear n1 n2)+
qed

theorem single_flight_refresh_witness:
  "run idle_client
     [ResponseFailed (request_of 1) (Some 401), ResponseFailed (request_of 2) (Some 401),
      ResponseFailed (request_of 3) (Some 401), RefreshResolved ''new.jwt'']
     = (idle_client\<lparr>accessToken := Some ''new.jwt'',
                     sessionStorage_accessToken := Some ''new.jwt''\<rparr>,
        [PostRefresh,
         Dispatch \<lparr> call = 1, Authorization = Some ''Bearer new.jwt'', retry = True \<rparr>,
         Dispatch \<lparr> call = 2, Authorization = Some ''Bearer new.jwt'', retry = False \<rparr>,
         Dispatch \<lparr> call = 3, Authorization = Some ''Bearer new.jwt'', retry = False \<rparr>]) \<and>
   run idle_client
     [ResponseFailed (request_of 1) (Some 401), ResponseFailed (request_of 2) (Some 401),
      ResponseFailed (request_of 3) (Some 401), RefreshRejected ''refresh failed'']
     = (idle_client\<lparr>accessToken := None, sessionStorage_accessToken := None\<rparr>,
        [PostRefresh,
         Rejected (request_of 2) (RefreshError ''refresh failed''),
         Rejected (request_of 3) (RefreshError ''refresh failed''),
         Redirect ''/auth/login'',
         Rejected \<lparr> call = 1, Authorization = Some ''Bearer old.jwt'', retry = True \<rparr>
           (RefreshError ''refresh failed'')])"
proof -
  have idle: "\<not> isRefreshing idle_client \<and> failedQueue idle_client = [] \<and> awaiting idle_client = []"
    by (simp add: idle_client_def)
  have fresh: "\<forall>r \<in> set (request_of 1 # [request_of 2, request_of 3]). \<not> retry r"
    by (simp add: request_of_def)
  have tok: "''new.jwt'' \<noteq> []" by simp
  show ?thesis
    using single_flight_refresh[OF idle fresh tok, of "''refresh failed''"]
    by (simp add: setTokens_def clearTokens_def idle_client_def request_of_def)
qed

text \<open>
  Claim C2. For every triple (identity id, email, role), the token that
  \<open>generateAccessToken\<close> issues for it, verified by \<open>verifyAccessToken\<close> at any time
  before the 15-minute expiry, is accepted, and the payload returned carries exactly
  that identity id, email and role, together with the registered members the signing
  library adds (issued-at, expiry, issuer, audience) and nothing else.
\<close>

theorem access_token_roundtrip:
  assumes span: "timespan srv (JWT_ACCESS_EXPIRY (config (penv srv))) = Some 900"
    and codec: "reads_back srv (access_jws (penv srv) (clock srv) 900 (access_claims uid em r))"
    and fresh: "t < clock srv + 900"
  shows "\<exists>tok. generateAccessToken srv (access_claims uid em r) = Inr tok \<and>
           verifyAccessToken (srv\<lparr>clock := t\<rparr>) tok =
             Inr \<lparr> userId = Some uid, email = Some em, role = Some r,
                   iat = Some (clock srv), exp = Some (clock srv + 900), nbf = None,
                   iss = Some ''secureauth-gateway'', aud = Some ''secureauth-api'' \<rparr>"
  using assms access_secret_nonempty[of "penv srv"]
  by (simp add: generateAccessToken_def verifyAccessToken_def jwt_sign_def jwt_verify_def
      access_jws_def access_claims_def signed_jws_def signed_payload_def sign_timestamp_def
      access_sign_options_def reads_back_def)

theorem access_token_roundtrip_witness:
  "generateAccessToken sample_server (access_claims ''64a1'' ''alice@x.com'' USER)
     = Inr ''access.alice'' \<and>
   verifyAccessToken (sample_server\<lparr>clock := 1899\<rparr>) ''access.alice''
     = Inr \<lparr> userId = Some ''64a1'', email = Some ''alice@x.com'', role = Some USER,
             iat = Some 1000, exp = Some 1900, nbf = None,
             iss = Some ''secureauth-gateway'', aud = Some ''secureauth-api'' \<rparr>"
proof -
  have b: "reads_back sample_server
             (access_jws (penv sample_server) (clock sample_server) 900
                (access_claims ''64a1'' ''alice@x.com'' USER))"
    using sample_reads_back(1) by (simp add: alice_access_def sample_penv)
  have c: "(1899::nat) < clock sample_server + 900" by (simp add: sample_penv)
  show ?thesis
    using access_token_roundtrip[OF sample_timespan(1) b c]
    by (auto simp: sample_generate sample_penv)
qed

text \<open>
  Claim C3. With two distinct secrets configured, a token issued by
  \<open>generateAccessToken\<close> is rejected by \<open>verifyRefreshToken\<close>, and a token issued by
  \<open>generateRefreshToken\<close> is rejected by \<open>verifyAccessToken\<close>, for every payload and at
  every time; both rejections are the invalid-token error with status 401.
\<close>

theorem secret_separation:
  assumes aspan: "timespan srv (JWT_ACCESS_EXPIRY (config (penv srv))) = Some aspan"
    and rspan: "timespan srv (JWT_REFRESH_EXPIRY (config (penv srv))) = Some rspan"
    and acodec: "reads_back srv (access_jws (penv srv) (clock srv) aspan p)"
    and rcodec: "reads_back srv (refresh_jws (penv srv) (clock srv) rspan q)"
    and distinct:
      "JWT_ACCESS_SECRET (config (penv srv)) \<noteq> JWT_REFRESH_SECRET (config (penv srv))"
    and aissued: "generateAccessToken srv p = Inr atok"
    and rissued: "generateRefreshToken srv q = Inr rtok"
  shows "verifyRefreshToken (srv\<lparr>clock := t\<rparr>) atok
           = Inl (AppError ''Invalid refresh token'' 401) \<and>
         verifyAccessToken (srv\<lparr>clock := t\<rparr>) rtok
           = Inl (AppError ''Invalid access token'' 401) \<and>
         statusCode (AppError ''Invalid refresh token'' 401) = 401 \<and>
         statusCode (AppError ''Invalid access token'' 401) = 401"
proof -
  have a: "atok = jwt_encode srv (access_jws (penv srv) (clock srv) aspan p)"
    using generateAccessToken_Inr[OF aissued aspan] .
  have r: "rtok = jwt_encode srv (refresh_jws (penv srv) (clock srv) rspan q)"
    using generateRefreshToken_Inr[OF rissued rspan] .
  have "verifyRefreshToken (srv\<lparr>clock := t\<rparr>) atok
          = Inl (AppError ''Invalid refresh token'' 401)"
    using acodec distinct refresh_secret_nonempty[of "penv srv"]
    by (simp add: a verifyRefreshToken_def jwt_verify_def reads_back_def access_jws_def
        signed_jws_def)
  moreover have "verifyAccessToken (srv\<lparr>clock := t\<rparr>) rtok
          = Inl (AppError ''Invalid access token'' 401)"
    using rcodec distinct access_secret_nonempty[of "penv srv"]
    by (simp add: r verifyAccessToken_def jwt_verify_def reads_back_def refresh_jws_def
        signed_jws_def)
  ultimately show ?thesis by (simp add: statusCode_def)
qed

theorem secret_separation_witness:
  "JWT_ACCESS_SECRET (config (penv sample_server))
     \<noteq> JWT_REFRESH_SECRET (config (penv sample_server)) \<and>
   generateAccessToken sample_server (access_claims ''64a1'' ''alice@x.com'' USER)
     = Inr ''access.alice'' \<and>
   generateRefreshToken sample_server (refresh_claims ''64a1'') = Inr ''refresh.alice'' \<and>
   verifyRefreshToken (sample_server\<lparr>clock := 1001\<rparr>) ''access.alice''
     = Inl (AppError ''Invalid refresh token'' 401) \<and>
   verifyAccessToken (sample_server\<lparr>clock := 1001\<rparr>) ''refresh.alice''
     = Inl (AppError ''Invalid access token'' 401)"
proof -
  have a: "reads_back sample_server
             (access_jws (penv sample_server) (clock sample_server) 900
                (access_claims ''64a1'' ''alice@x.com'' USER))"
    using sample_reads_back(1) by (simp add: alice_access_def sample_penv)
  have r: "reads_back sample_server
             (refresh_jws (penv sample_server) (clock sample_server) 604800
                (refresh_claims ''64a1''))"
    using sample_reads_back(2) by (simp add: alice_refresh_def sample_penv)
  have d: "JWT_ACCESS_SECRET (config (penv sample_server))
             \<noteq> JWT_REFRESH_SECRET (config (penv sample_server))"
    by (simp add: sample_penv sample_config)
  show ?thesis
    using secret_separation[OF sample_timespan a r d sample_generate, of 1001] d
    by (simp add: sample_generate)
qed


text \<open>
  Claim C4. For every allow-list and every request, \<open>restrictTo\<close> fails with 401 when
  no identity is attached; fails with 403 and a message listing the allowed roles when
  the attached role is not in the list; and passes the request on otherwise. Membership
  is exact: ADMIN against the list [MERCHANT] is denied.
\<close>

theorem restrictTo_allow_list:
  "(user req = None \<longrightarrow>
      restrictTo allowedRoles req
        = Inl (AppError ''Authentication required. Please log in first.'' 401)) \<and>
   (\<forall>u. user req = Some u \<and> role u \<notin> Some ` set allowedRoles \<longrightarrow>
      restrictTo allowedRoles req
        = Inl (AppError (''Access denied. This action requires one of the following roles: ''
                           @ join '', '' (map role_value allowedRoles)) 403)) \<and>
   (\<forall>u. user req = Some u \<and> role u \<in> Some ` set allowedRoles \<longrightarrow>
      restrictTo allowedRoles req = Inr req) \<and>
   restrictTo [MERCHANT] (req\<lparr>user := Some (access_claims uid em ADMIN)\<rparr>)
     = Inl (AppError
              ''Access denied. This action requires one of the following roles: MERCHANT'' 403)"
  by (auto simp: restrictTo_def access_claims_def split: option.splits)

theorem restrictTo_allow_list_witness:
  "restrictTo [MERCHANT, ADMIN] sample_request
     = Inl (AppError ''Authentication required. Please log in first.'' 401) \<and>
   restrictTo [MERCHANT, ADMIN]
       (sample_request\<lparr>user := Some (access_claims ''64a1'' ''alice@x.com'' USER)\<rparr>)
     = Inl (AppError
         ''Access denied. This action requires one of the following roles: MERCHANT, ADMIN''
         403) \<and>
   restrictTo [MERCHANT, ADMIN]
       (sample_request\<lparr>user := Some (access_claims ''64a2'' ''shop@x.com'' MERCHANT)\<rparr>)
     = Inr (sample_request\<lparr>user := Some (access_claims ''64a2'' ''shop@x.com'' MERCHANT)\<rparr>) \<and>
   restrictTo [MERCHANT, ADMIN]
       (sample_request\<lparr>user := Some (access_claims ''64a3'' ''root@x.com'' ADMIN)\<rparr>)
     = Inr (sample_request\<lparr>user := Some (access_claims ''64a3'' ''root@x.com'' ADMIN)\<rparr>)"
proof -
  have none: "user sample_request = None" by (simp add: sample_request_def)
  have out: "user (sample_request\<lparr>user := Some (access_claims ''64a1'' ''alice@x.com'' USER)\<rparr>)
               = Some (access_claims ''64a1'' ''alice@x.com'' USER) \<and>
             role (access_claims ''64a1'' ''alice@x.com'' USER) \<notin> Some ` set [MERCHANT, ADMIN]"
    by (simp add: access_claims_def)
  have in1: "user (sample_request\<lparr>user := Some (access_claims ''64a2'' ''shop@x.com'' MERCHANT)\<rparr>)
               = Some (access_claims ''64a2'' ''shop@x.com'' MERCHANT) \<and>
             role (access_claims ''64a2'' ''shop@x.com'' MERCHANT) \<in> Some ` set [MERCHANT, ADMIN]"
    by (simp add: access_claims_def)
  have in2: "user (sample_request\<lparr>user := Some (access_claims ''64a3'' ''root@x.com'' ADMIN)\<rparr>)
               = Some (access_claims ''64a3'' ''root@x.com'' ADMIN) \<and>
             role (access_claims ''64a3'' ''root@x.com'' ADMIN) \<in> Some ` set [MERCHANT, ADMIN]"
    by (simp add: access_claims_def)
  show ?thesis
    using none out in1 in2
      restrictTo_allow_list[of sample_request "[MERCHANT, ADMIN]"]
      restrictTo_allow_list[of "sample_request\<lparr>user := Some (access_claims ''64a1'' ''alice@x.com'' USER)\<rparr>" "[MERCHANT, ADMIN]"]
      restrictTo_allow_list[of "sample_request\<lparr>user := Some (access_claims ''64a2'' ''shop@x.com'' MERCHANT)\<rparr>" "[MERCHANT, ADMIN]"]
      restrictTo_allow_list[of "sample_request\<lparr>user := Some (access_claims ''64a3'' ''root@x.com'' ADMIN)\<rparr>" "[MERCHANT, ADMIN]"]
    by (simp add: access_claims_def)
qed

text \<open>
  Claim C5. For every request, \<open>protect\<close> fails with 401, without passing the request
  on, when the Authorization header is missing, does not start with the Bearer scheme,
  carries an empty token, or carries a token that \<open>verifyAccessToken\<close> rejects; when
  the token verifies, the decoded payload is attached to the request, which is passed
  on. Every failure is a 401, and the outcome does not depend on the user collection:
  an unexpired token of an identity that has since been deactivated still
  authenticates.
\<close>

theorem protect_stateless:
  "(authorization req = None \<longrightarrow>
      protect srv req
        = Inl (AppError ''Authentication required. Please provide a valid access token.'' 401)) \<and>
   (\<forall>h. authorization req = Some h \<and> \<not> startsWith h ''Bearer '' \<longrightarrow>
      protect srv req
        = Inl (AppError ''Authentication required. Please provide a valid access token.'' 401)) \<and>
   (\<forall>rest. authorization req = Some (''Bearer '' @ rest) \<and>
           takeWhile (\<lambda>x. x \<noteq> CHR '' '') rest = [] \<longrightarrow>
      protect srv req = Inl (AppError ''Access token is missing'' 401)) \<and>
   (\<forall>rest e. authorization req = Some (''Bearer '' @ rest) \<and>
           takeWhile (\<lambda>x. x \<noteq> CHR '' '') rest \<noteq> [] \<and>
           verifyAccessToken srv (takeWhile (\<lambda>x. x \<noteq> CHR '' '') rest) = Inl e \<longrightarrow>
      protect srv req = Inl e \<and> statusCode e = 401) \<and>
   (\<forall>rest claims. authorization req = Some (''Bearer '' @ rest) \<and>
           takeWhile (\<lambda>x. x \<noteq> CHR '' '') rest \<noteq> [] \<and>
           verifyAccessToken srv (takeWhile (\<lambda>x. x \<noteq> CHR '' '') rest) = Inr claims \<longrightarrow>
      protect srv req = Inr (req\<lparr>user := Some claims\<rparr>)) \<and>
   (\<forall>e. protect srv req = Inl e \<longrightarrow> statusCode e = 401) \<and>
   protect (srv\<lparr>users := db\<rparr>) req = protect srv req"
proof -
  have store: "protect (srv\<lparr>users := db\<rparr>) req = protect srv req"
    by (simp add: protect_def verifyAccessToken_users cong: option.case_cong if_cong)
  show ?thesis
    using store protect_failure_401[of srv req] verifyAccessToken_401
    by (auto simp: protect_bearer) (auto simp: protect_def)
qed

theorem protect_stateless_witness:
  "protect sample_server sample_request
     = Inl (AppError ''Authentication required. Please provide a valid access token.'' 401) \<and>
   protect sample_server (sample_request\<lparr>authorization := Some ''Basic YWxpY2U6cHc=''\<rparr>)
     = Inl (AppError ''Authentication required. Please provide a valid access token.'' 401) \<and>
   protect sample_server (sample_request\<lparr>authorization := Some ''Bearer ''\<rparr>)
     = Inl (AppError ''Access token is missing'' 401) \<and>
   protect sample_server (sample_request\<lparr>authorization := Some ''Bearer garbage''\<rparr>)
     = Inl (AppError ''Invalid access token'' 401) \<and>
   protect (sample_server\<lparr>clock := 1900\<rparr>)
       (sample_request\<lparr>authorization := Some ''Bearer access.alice''\<rparr>)
     = Inl (AppError ''Access token has expired'' 401) \<and>
   protect (sample_server\<lparr>users := [alice\<lparr>isActive := False\<rparr>]\<rparr>)
       (sample_request\<lparr>authorization := Some ''Bearer access.alice''\<rparr>)
     = Inr (sample_request\<lparr>authorization := Some ''Bearer access.alice'',
                            user := Some (payload alice_access)\<rparr>)"
proof -
  let ?bearer = "\<lambda>t. sample_request\<lparr>authorization := Some (''Bearer '' @ t)\<rparr>"
  have a: "authorization sample_request = None" by (simp add: sample_request_def)
  have b: "authorization (sample_request\<lparr>authorization := Some ''Basic YWxpY2U6cHc=''\<rparr>)
             = Some ''Basic YWxpY2U6cHc='' \<and> \<not> startsWith ''Basic YWxpY2U6cHc='' ''Bearer ''"
    by (simp add: startsWith_def)
  have c: "authorization (?bearer []) = Some (''Bearer '' @ []) \<and>
           takeWhile (\<lambda>x. x \<noteq> CHR '' '') [] = []"
    by simp
  have d: "authorization (?bearer ''garbage'') = Some (''Bearer '' @ ''garbage'') \<and>
           takeWhile (\<lambda>x. x \<noteq> CHR '' '') ''garbage'' \<noteq> [] \<and>
           verifyAccessToken sample_server (takeWhile (\<lambda>x. x \<noteq> CHR '' '') ''garbage'')
             = Inl (AppError ''Invalid access token'' 401)"
    by (simp add: verifyAccessToken_def jwt_verify_def sample_server_def)
  have e: "authorization (?bearer ''access.alice'') = Some (''Bearer '' @ ''access.alice'') \<and>
           takeWhile (\<lambda>x. x \<noteq> CHR '' '') ''access.alice'' \<noteq> [] \<and>
           verifyAccessToken (sample_server\<lparr>clock := 1900\<rparr>)
               (takeWhile (\<lambda>x. x \<noteq> CHR '' '') ''access.alice'')
             = Inl (AppError ''Access token has expired'' 401)"
    using access_secret_nonempty[of sample_env]
    by (simp add: verifyAccessToken_def jwt_verify_def alice_signatures alice_payloads
        sample_server_def)
  have f: "authorization (?bearer ''access.alice'') = Some (''Bearer '' @ ''access.alice'') \<and>
           takeWhile (\<lambda>x. x \<noteq> CHR '' '') ''access.alice'' \<noteq> [] \<and>
           verifyAccessToken sample_server
               (takeWhile (\<lambda>x. x \<noteq> CHR '' '') ''access.alice'')
             = Inr (payload alice_access)"
    using sample_verify_access[of 1000 "[alice]"] by (simp add: sample_server_same)
  show ?thesis
    using a b c d e f
      protect_stateless[of sample_request sample_server]
      protect_stateless[of "sample_request\<lparr>authorization := Some ''Basic YWxpY2U6cHc=''\<rparr>"
        sample_server]
      protect_stateless[of "?bearer []" sample_server]
      protect_stateless[of "?bearer ''garbage''" sample_server]
      protect_stateless[of "?bearer ''access.alice''" "sample_server\<lparr>clock := 1900\<rparr>"]
      protect_stateless[of "?bearer ''access.alice''" sample_server
        "[alice\<lparr>isActive := False\<rparr>]"]
    by simp
qed




text \<open>
  Claim C7 (as amended). For every login request whose email is a non-empty string and
  whose password is truthy (not missing, \<open>null\<close>, \<open>false\<close>, 0 or the empty string):
  when no local-provider identity exists for the lower-cased email, and when the
  password comparison fails for the identity found, the handler fails with 401 and the
  same message ``Invalid email or password''; when the password is correct but the
  identity is inactive it fails with 403; otherwise, when the configured token
  lifetimes are time spans the signing library accepts, it issues both tokens, answers
  200 and sets the refresh token in the cookie \<open>jwt\<close> with the same options as
  \<open>register\<close>.

  The theorem also records what the handler does with the other requests: a falsy
  email or password is answered with 400 and a truthy email that is not a string with
  500, in both cases without a query; every other request issues exactly one query.
\<close>

theorem login_outcomes:
  "(\<not> js_truthy (body_email req) \<or> \<not> js_truthy (body_password req) \<longrightarrow>
      login srv req = (Inl (AppError ''Please provide email and password'' 400), [])) \<and>
   (js_truthy (body_email req) \<and> js_truthy (body_password req) \<and>
    (\<forall>em. body_email req \<noteq> JString em) \<longrightarrow>
      (\<exists>msg. login srv req = (Inl (Error msg), [])) \<and>
      http_status (fst (login srv req)) = 500) \<and>
   (\<forall>em. body_email req = JString em \<and> em \<noteq> [] \<and> js_truthy (body_password req) \<longrightarrow>
      snd (login srv req) = [FindOne (toLowerCase em) ''local''] \<and>
      (findOne_email_provider srv (toLowerCase em) ''local'' = None \<longrightarrow>
         fst (login srv req) = Inl (AppError ''Invalid email or password'' 401)) \<and>
      (\<forall>u. findOne_email_provider srv (toLowerCase em) ''local'' = Some u \<and>
           \<not> comparePassword srv u (body_password req) \<longrightarrow>
         fst (login srv req) = Inl (AppError ''Invalid email or password'' 401)) \<and>
      (\<forall>u. findOne_email_provider srv (toLowerCase em) ''local'' = Some u \<and>
           comparePassword srv u (body_password req) \<and> \<not> isActive u \<longrightarrow>
         fst (login srv req)
           = Inl (AppError ''Your account has been deactivated. Please contact support.''
                    403)) \<and>
      (\<forall>u aspan rspan.
           findOne_email_provider srv (toLowerCase em) ''local'' = Some u \<and>
           comparePassword srv u (body_password req) \<and> isActive u \<and>
           timespan srv (JWT_ACCESS_EXPIRY (config (penv srv))) = Some aspan \<and>
           timespan srv (JWT_REFRESH_EXPIRY (config (penv srv))) = Some rspan \<longrightarrow>
         (\<exists>accessToken refreshToken r.
            generateAccessToken srv (access_claims (user_id u) (user_email u) (user_role u))
              = Inr accessToken \<and>
            generateRefreshToken srv (refresh_claims (user_id u)) = Inr refreshToken \<and>
            fst (login srv req)
              = Inr \<lparr> res_status = 200, res_message = ''Login successful'',
                      res_data = AuthData (user_id u) (username u) (user_email u)
                                   (user_role u) accessToken,
                      res_cookie = Some (''jwt'', refreshToken,
                                         register_cookieOptions srv) \<rparr> \<and>
            register_respond srv u = Inr r \<and>
            res_cookie r = Some (''jwt'', refreshToken, register_cookieOptions srv))))"
proof -
  have falsy: "\<not> js_truthy (body_email req) \<or> \<not> js_truthy (body_password req) \<longrightarrow>
      login srv req = (Inl (AppError ''Please provide email and password'' 400), [])"
    by (simp add: login_def)
  have nonstring: "js_truthy (body_email req) \<and> js_truthy (body_password req) \<and>
    (\<forall>em. body_email req \<noteq> JString em) \<longrightarrow>
      (\<exists>msg. login srv req = (Inl (Error msg), [])) \<and>
      http_status (fst (login srv req)) = 500"
    by (cases "body_email req") (simp_all add: login_def http_status_def statusCode_def)
  have main: "\<forall>em. body_email req = JString em \<and> em \<noteq> [] \<and> js_truthy (body_password req) \<longrightarrow>
      snd (login srv req) = [FindOne (toLowerCase em) ''local''] \<and>
      (findOne_email_provider srv (toLowerCase em) ''local'' = None \<longrightarrow>
         fst (login srv req) = Inl (AppError ''Invalid email or password'' 401)) \<and>
      (\<forall>u. findOne_email_provider srv (toLowerCase em) ''local'' = Some u \<and>
           \<not> comparePassword srv u (body_password req) \<longrightarrow>
         fst (login srv req) = Inl (AppError ''Invalid email or password'' 401)) \<and>
      (\<forall>u. findOne_email_provider srv (toLowerCase em) ''local'' = Some u \<and>
           comparePassword srv u (body_password req) \<and> \<not> isActive u \<longrightarrow>
         fst (login srv req)
           = Inl (AppError ''Your account has been deactivated. Please contact support.''
                    403)) \<and>
      (\<forall>u aspan rspan.
           findOne_email_provider srv (toLowerCase em) ''local'' = Some u \<and>
           comparePassword srv u (body_password req) \<and> isActive u \<and>
           timespan srv (JWT_ACCESS_EXPIRY (config (penv srv))) = Some aspan \<and>
           timespan srv (JWT_REFRESH_EXPIRY (config (penv srv))) = Some rspan \<longrightarrow>
         (\<exists>accessToken refreshToken r.
            generateAccessToken srv (access_claims (user_id u) (user_email u) (user_role u))
              = Inr accessToken \<and>
            generateRefreshToken srv (refresh_claims (user_id u)) = Inr refreshToken \<and>
            fst (login srv req)
              = Inr \<lparr> res_status = 200, res_message = ''Login successful'',
                      res_data = AuthData (user_id u) (username u) (user_email u)
                                   (user_role u) accessToken,
                      res_cookie = Some (''jwt'', refreshToken,
                                         register_cookieOptions srv) \<rparr> \<and>
            register_respond srv u = Inr r \<and>
            res_cookie r = Some (''jwt'', refreshToken, register_cookieOptions srv)))"
    by (auto simp: login_def register_respond_def sendSuccess_def cookieOptions_same
        generateAccessToken_claims generateRefreshToken_claims)
  show ?thesis
    by (intro conjI) (rule falsy nonstring main)+
qed

theorem login_outcomes_witness:
  "login sample_server
       (sample_request\<lparr>body_email := JString ''nobody@x.com'',
                        body_password := JString ''Passw0rd1''\<rparr>)
     = (Inl (AppError ''Invalid email or password'' 401), [FindOne ''nobody@x.com'' ''local'']) \<and>
   login sample_server
       (sample_request\<lparr>body_email := JString ''Alice@X.com'',
                        body_password := JString ''letmein''\<rparr>)
     = (Inl (AppError ''Invalid email or password'' 401), [FindOne ''alice@x.com'' ''local'']) \<and>
   login sample_server
       (sample_request\<lparr>body_email := JString ''Alice@X.com'', body_password := JNumber 7\<rparr>)
     = (Inl (AppError ''Invalid email or password'' 401), [FindOne ''alice@x.com'' ''local'']) \<and>
   login (sample_server\<lparr>users := [alice\<lparr>isActive := False\<rparr>]\<rparr>)
       (sample_request\<lparr>body_email := JString ''Alice@X.com'',
                        body_password := JString ''Passw0rd1''\<rparr>)
     = (Inl (AppError ''Your account has been deactivated. Please contact support.'' 403),
        [FindOne ''alice@x.com'' ''local'']) \<and>
   login sample_server
       (sample_request\<lparr>body_email := JString ''Alice@X.com'',
                        body_password := JString ''Passw0rd1''\<rparr>)
     = (Inr \<lparr> res_status = 200, res_message = ''Login successful'',
              res_data = AuthData ''64a1'' ''alice'' ''alice@x.com'' USER ''access.alice'',
              res_cookie = Some (''jwt'', ''refresh.alice'',
                                 \<lparr> httpOnly = True, secure = False, sameSite = ''lax'',
                                   maxAge = 604800000 \<rparr>) \<rparr>,
        [FindOne ''alice@x.com'' ''local'']) \<and>
   login sample_server (sample_request\<lparr>body_email := JString ''alice@x.com''\<rparr>)
     = (Inl (AppError ''Please provide email and password'' 400), [])"
proof -
  let ?req = "\<lambda>e p. sample_request\<lparr>body_email := JString e, body_password := p\<rparr>"
  let ?banned = "sample_server\<lparr>users := [alice\<lparr>isActive := False\<rparr>]\<rparr>"
  have lower: "toLowerCase ''Alice@X.com'' = ''alice@x.com''"
              "toLowerCase ''nobody@x.com'' = ''nobody@x.com''"
    by (simp_all add: toLowerCase_def lower_char_def)
  have nobody: "findOne_email_provider sample_server (toLowerCase ''nobody@x.com'') ''local'' = None"
    by (simp add: lower findOne_email_provider_def sample_penv alice_def)
  have found: "findOne_email_provider sample_server (toLowerCase ''Alice@X.com'') ''local''
                 = Some alice"
    by (simp add: lower findOne_email_provider_def sample_penv alice_def)
  have found_banned: "findOne_email_provider ?banned (toLowerCase ''Alice@X.com'') ''local''
                 = Some (alice\<lparr>isActive := False\<rparr>)"
    by (simp add: lower findOne_email_provider_def alice_def)
  have wrong: "\<not> comparePassword sample_server alice (JString ''letmein'')"
              "\<not> comparePassword sample_server alice (JNumber 7)"
    by (simp_all add: comparePassword_def alice_def sample_server_def)
  have right: "comparePassword sample_server alice (JString ''Passw0rd1'')"
              "comparePassword ?banned (alice\<lparr>isActive := False\<rparr>) (JString ''Passw0rd1'')"
    by (simp_all add: comparePassword_def alice_def sample_server_def)
  have act: "isActive alice" "\<not> isActive (alice\<lparr>isActive := False\<rparr>)"
    by (simp_all add: alice_def)
  have opts: "register_cookieOptions sample_server
                = \<lparr> httpOnly = True, secure = False, sameSite = ''lax'', maxAge = 604800000 \<rparr>"
    by (simp add: register_cookieOptions_def sample_penv sample_config)
  have fields: "user_id alice = ''64a1''" "username alice = ''alice''"
               "user_email alice = ''alice@x.com''" "user_role alice = USER"
    by (simp_all add: alice_def)
  have 1: "login sample_server (?req ''nobody@x.com'' (JString ''Passw0rd1''))
             = (Inl (AppError ''Invalid email or password'' 401),
                [FindOne ''nobody@x.com'' ''local''])"
    using login_outcomes[of "?req ''nobody@x.com'' (JString ''Passw0rd1'')" sample_server] nobody
    by (simp add: lower prod_eq_iff)
  have 2: "login sample_server (?req ''Alice@X.com'' (JString ''letmein''))
             = (Inl (AppError ''Invalid email or password'' 401),
                [FindOne ''alice@x.com'' ''local''])"
    using login_outcomes[of "?req ''Alice@X.com'' (JString ''letmein'')" sample_server]
      found wrong(1)
    by (simp add: lower prod_eq_iff)
  have 3: "login sample_server (?req ''Alice@X.com'' (JNumber 7))
             = (Inl (AppError ''Invalid email or password'' 401),
                [FindOne ''alice@x.com'' ''local''])"
    using login_outcomes[of "?req ''Alice@X.com'' (JNumber 7)" sample_server] found wrong(2)
    by (simp add: lower prod_eq_iff)
  have 4: "login ?banned (?req ''Alice@X.com'' (JString ''Passw0rd1''))
             = (Inl (AppError ''Your account has been deactivated. Please contact support.''
                       403),
                [FindOne ''alice@x.com'' ''local''])"
    using login_outcomes[of "?req ''Alice@X.com'' (JString ''Passw0rd1'')" ?banned]
      found_banned right(2) act(2)
    by (simp add: lower prod_eq_iff)
  have 5: "login sample_server (?req ''Alice@X.com'' (JString ''Passw0rd1''))
     = (Inr \<lparr> res_status = 200, res_message = ''Login successful'',
              res_data = AuthData ''64a1'' ''alice'' ''alice@x.com'' USER ''access.alice'',
              res_cookie = Some (''jwt'', ''refresh.alice'',
                                 \<lparr> httpOnly = True, secure = False, sameSite = ''lax'',
                                   maxAge = 604800000 \<rparr>) \<rparr>,
        [FindOne ''alice@x.com'' ''local''])"
    using login_outcomes[of "?req ''Alice@X.com'' (JString ''Passw0rd1'')" sample_server]
      found right(1) act(1) sample_timespan
    by (auto simp: lower prod_eq_iff opts fields sample_generate)
  have 6: "login sample_server (sample_request\<lparr>body_email := JString ''alice@x.com''\<rparr>)
     = (Inl (AppError ''Please provide email and password'' 400), [])"
    using login_outcomes[of "sample_request\<lparr>body_email := JString ''alice@x.com''\<rparr>"
        sample_server]
    by (simp add: sample_request_def)
  show ?thesis using 1 2 3 4 5 6 by simp
qed

text \<open>
  The claim as first stated, for every login request, fails in three ways. A request
  whose email matches no identity but whose password is empty is answered with 400,
  not 401. So is, with 500, a request whose email is the number 5. And on a server
  started with a lifetime that is not a time span, the right password of an active
  identity is answered with 500: no token is issued.
\<close>

theorem login_not_for_every_request_counterexample:
  "findOne_email_provider sample_server (toLowerCase ''nobody@x.com'') ''local'' = None \<and>
   login sample_server
       (sample_request\<lparr>body_email := JString ''nobody@x.com'', body_password := JString []\<rparr>)
     = (Inl (AppError ''Please provide email and password'' 400), []) \<and>
   http_status (fst (login sample_server
       (sample_request\<lparr>body_email := JString ''nobody@x.com'',
                        body_password := JString []\<rparr>))) = 400 \<and>
   http_status (fst (login sample_server
       (sample_request\<lparr>body_email := JNumber 5,
                        body_password := JString ''Passw0rd1''\<rparr>))) = 500 \<and>
   findOne_email_provider misconfigured_server (toLowerCase ''Alice@X.com'') ''local''
     = Some alice \<and>
   comparePassword misconfigured_server alice (JString ''Passw0rd1'') \<and>
   isActive alice \<and>
   http_status (fst (login misconfigured_server
       (sample_request\<lparr>body_email := JString ''Alice@X.com'',
                        body_password := JString ''Passw0rd1''\<rparr>))) = 500"
proof -
  have lower: "toLowerCase ''Alice@X.com'' = ''alice@x.com''"
              "toLowerCase ''nobody@x.com'' = ''nobody@x.com''"
    by (simp_all add: toLowerCase_def lower_char_def)
  have nobody: "findOne_email_provider sample_server ''nobody@x.com'' ''local'' = None"
    by (simp add: findOne_email_provider_def sample_penv alice_def)
  have empty: "login sample_server
       (sample_request\<lparr>body_email := JString ''nobody@x.com'', body_password := JString []\<rparr>)
     = (Inl (AppError ''Please provide email and password'' 400), [])"
    by (simp add: login_def)
  have number: "http_status (fst (login sample_server
       (sample_request\<lparr>body_email := JNumber 5,
                        body_password := JString ''Passw0rd1''\<rparr>))) = 500"
    by (simp add: login_def http_status_def statusCode_def)
  have found: "findOne_email_provider misconfigured_server ''alice@x.com'' ''local'' = Some alice"
    by (simp add: findOne_email_provider_def misconfigured_server_def sample_penv alice_def)
  have right: "comparePassword misconfigured_server alice (JString ''Passw0rd1'')"
    by (simp add: comparePassword_def alice_def misconfigured_server_def sample_server_def)
  have act: "isActive alice" by (simp add: alice_def)
  have nospan: "generateAccessToken misconfigured_server p
                  = Inl (Error ''expiresIn should be a number of seconds or string representing a timespan'')"
    if "exp p = None" "aud p = None" "iss p = None" for p
    using that access_secret_nonempty[of "penv misconfigured_server"]
    by (simp add: generateAccessToken_def jwt_sign_def access_sign_options_def)
       (simp add: misconfigured_server_def sample_server_def config_def sample_env_def)
  have bad: "http_status (fst (login misconfigured_server
       (sample_request\<lparr>body_email := JString ''Alice@X.com'',
                        body_password := JString ''Passw0rd1''\<rparr>))) = 500"
    using found right act
    by (simp add: login_def lower nospan access_claims_def http_status_def statusCode_def)
  show ?thesis
    using nobody empty number found right act bad
    by (simp add: lower http_status_def statusCode_def)
qed

text \<open>
  Claim C8. The claim is that the client never reads the access token from durable
  storage. The request interceptor does: with no token in memory, the item
  \<open>'accessToken'\<close> of \<open>localStorage\<close> becomes the bearer credential and is copied into
  memory. Storing and clearing tokens, on the other hand, touch only the variable and
  \<open>sessionStorage\<close>.
\<close>

theorem request_interceptor_reads_localStorage:
  "request_interceptor durable_only \<lparr> call = 0, Authorization = None, retry = False \<rparr>
     = (durable_only\<lparr>accessToken := Some ''old.jwt''\<rparr>,
        \<lparr> call = 0, Authorization = Some ''Bearer old.jwt'', retry = False \<rparr>) \<and>
   sessionStorage_accessToken durable_only = None \<and>
   localStorage_accessToken (setTokens st access) = localStorage_accessToken st \<and>
   localStorage_accessToken (clearTokens st) = localStorage_accessToken st"
  by (simp add: request_interceptor_def durable_only_def setTokens_def clearTokens_def Let_def)

text \<open>
  Claim C9. For every \<open>PATCH /users/:id/status\<close> request whose path id is the caller's
  own identity id, the handler fails with 400 whatever \<open>isActive\<close> is asked for
  (\<open>true\<close> included), issues no query, and leaves the collection as it was.
\<close>

theorem updateUserStatus_self_rejected:
  assumes "user req = Some c" and "userId c = Some (params_id req)"
  shows "(\<exists>msg. updateUserStatus srv req = (Inl (AppError msg 400), users srv, [])) \<and>
         (\<forall>b. body_isActive req = JBool b \<longrightarrow>
            updateUserStatus srv req
              = (Inl (AppError ''Admins cannot ban themselves'' 400), users srv, []))"
  using assms by (cases "body_isActive req") (simp_all add: updateUserStatus_def)

theorem updateUserStatus_self_rejected_witness:
  "updateUserStatus sample_server
       (sample_request\<lparr>user := Some (access_claims ''64a1'' ''alice@x.com'' ADMIN),
                        body_isActive := JBool True\<rparr>)
     = (Inl (AppError ''Admins cannot ban themselves'' 400), [alice], []) \<and>
   updateUserStatus sample_server
       (sample_request\<lparr>user := Some (access_claims ''64a1'' ''alice@x.com'' ADMIN),
                        body_isActive := JBool False\<rparr>)
     = (Inl (AppError ''Admins cannot ban themselves'' 400), [alice], [])"
proof -
  let ?req = "\<lambda>b. sample_request\<lparr>user := Some (access_claims ''64a1'' ''alice@x.com'' ADMIN),
                                   body_isActive := JBool b\<rparr>"
  have u: "\<And>b. user (?req b) = Some (access_claims ''64a1'' ''alice@x.com'' ADMIN)" by simp
  have i: "\<And>b. userId (access_claims ''64a1'' ''alice@x.com'' ADMIN) = Some (params_id (?req b))"
    by (simp add: access_claims_def sample_request_def)
  show ?thesis
    using updateUserStatus_self_rejected[OF u[of True] i[of True], of sample_server]
      updateUserStatus_self_rejected[OF u[of False] i[of False], of sample_server]
    by (auto simp: sample_penv)
qed

text \<open>
  Claim C10. For every \<open>GET /auth/me\<close> request whose access token verifies but whose
  subject matches no identity in the collection, the answer is 404 ``User not found'',
  not 401; when the identity exists, the response carries the id, username, email,
  role, active flag and creation date of the record read from the collection, not the
  token's claims.
\<close>

theorem getMe_refetches_identity:
  "(\<forall>c. user req = Some c \<and> findById srv (userId c) = None \<longrightarrow>
      getMe srv req = Inl (AppError ''User not found'' 404)) \<and>
   (\<forall>c u. user req = Some c \<and> findById srv (userId c) = Some u \<longrightarrow>
      getMe srv req
        = Inr \<lparr> res_status = 200, res_message = ''User retrieved successfully'',
                res_data = MeData (user_id u) (username u) (user_email u) (user_role u)
                             (isActive u) (createdAt u),
                res_cookie = None \<rparr>) \<and>
   (\<forall>rest c. authorization req = Some (''Bearer '' @ rest) \<and>
         takeWhile (\<lambda>x. x \<noteq> CHR '' '') rest \<noteq> [] \<and>
         verifyAccessToken srv (takeWhile (\<lambda>x. x \<noteq> CHR '' '') rest) = Inr c \<and>
         findById srv (userId c) = None \<longrightarrow>
      route_me srv req = Inl (AppError ''User not found'' 404)) \<and>
   (\<forall>rest c u. authorization req = Some (''Bearer '' @ rest) \<and>
         takeWhile (\<lambda>x. x \<noteq> CHR '' '') rest \<noteq> [] \<and>
         verifyAccessToken srv (takeWhile (\<lambda>x. x \<noteq> CHR '' '') rest) = Inr c \<and>
         findById srv (userId c) = Some u \<longrightarrow>
      route_me srv req
        = Inr \<lparr> res_status = 200, res_message = ''User retrieved successfully'',
                res_data = MeData (user_id u) (username u) (user_email u) (user_role u)
                             (isActive u) (createdAt u),
                res_cookie = None \<rparr>)"
  by (auto simp: getMe_def sendSuccess_def route_me_def protect_bearer)

theorem getMe_refetches_identity_witness:
  "route_me (sample_server\<lparr>users := []\<rparr>)
       (sample_request\<lparr>authorization := Some ''Bearer access.alice''\<rparr>)
     = Inl (AppError ''User not found'' 404) \<and>
   route_me (sample_server\<lparr>users := [alice\<lparr>user_role := MERCHANT, isActive := False\<rparr>]\<rparr>)
       (sample_request\<lparr>authorization := Some ''Bearer access.alice''\<rparr>)
     = Inr \<lparr> res_status = 200, res_message = ''User retrieved successfully'',
             res_data = MeData ''64a1'' ''alice'' ''alice@x.com'' MERCHANT False 500,
             res_cookie = None \<rparr>"
proof -
  let ?req = "sample_request\<lparr>authorization := Some (''Bearer '' @ ''access.alice'')\<rparr>"
  let ?gone = "sample_server\<lparr>users := []\<rparr>"
  let ?changed = "sample_server\<lparr>users := [alice\<lparr>user_role := MERCHANT, isActive := False\<rparr>]\<rparr>"
  have v: "\<And>db. verifyAccessToken (sample_server\<lparr>users := db\<rparr>)
                 (takeWhile (\<lambda>x. x \<noteq> CHR '' '') ''access.alice'')
             = Inr (payload alice_access)"
    using sample_verify_access[of 1000] by (simp add: sample_clock_same)
  have gone: "authorization ?req = Some (''Bearer '' @ ''access.alice'') \<and>
      takeWhile (\<lambda>x. x \<noteq> CHR '' '') ''access.alice'' \<noteq> [] \<and>
      verifyAccessToken ?gone (takeWhile (\<lambda>x. x \<noteq> CHR '' '') ''access.alice'')
        = Inr (payload alice_access) \<and>
      findById ?gone (userId (payload alice_access)) = None"
    using v[of "[]"] by (simp add: findById_def alice_payloads)
  have changed: "authorization ?req = Some (''Bearer '' @ ''access.alice'') \<and>
      takeWhile (\<lambda>x. x \<noteq> CHR '' '') ''access.alice'' \<noteq> [] \<and>
      verifyAccessToken ?changed (takeWhile (\<lambda>x. x \<noteq> CHR '' '') ''access.alice'')
        = Inr (payload alice_access) \<and>
      findById ?changed (userId (payload alice_access))
        = Some (alice\<lparr>user_role := MERCHANT, isActive := False\<rparr>)"
    using v[of "[alice\<lparr>user_role := MERCHANT, isActive := False\<rparr>]"]
    by (simp add: findById_def alice_payloads alice_def)
  have 1: "route_me ?gone ?req = Inl (AppError ''User not found'' 404)"
    using getMe_refetches_identity[of ?req ?gone] gone by blast
  have 2: "route_me ?changed ?req
     = Inr \<lparr> res_status = 200, res_message = ''User retrieved successfully'',
             res_data = MeData ''64a1'' ''alice'' ''alice@x.com'' MERCHANT False 500,
             res_cookie = None \<rparr>"
    using getMe_refetches_identity[of ?req ?changed] changed by (fastforce simp: alice_def)
  show ?thesis using 1 2 by simp
qed


end
